theory Spec2Isabelle
  imports Complex_Main "HOL-Library.Word" "HOL-Library.Signed_Division"
begin

section \<open>Values of the Go runtime and standard library\<close>

text \<open>
  A Go \<^verbatim>\<open>float64\<close> is a finite number, an infinity or NaN. The adapters only compare
  amounts, so a finite value is represented by the real number it denotes (every finite
  \<^verbatim>\<open>float64\<close> is one); the comparisons below are the IEEE-754 ones that Go's
  \<^verbatim>\<open><=\<close>, \<^verbatim>\<open><\<close> and \<^verbatim>\<open>>\<close> compute: every comparison with NaN is false.
\<close>

datatype float64 = Finite real | PosInf | NegInf | NaN

fun f64_le :: "float64 \<Rightarrow> float64 \<Rightarrow> bool" where
  "f64_le NaN y = False"
| "f64_le x NaN = False"
| "f64_le NegInf y = True"
| "f64_le x PosInf = True"
| "f64_le (Finite a) (Finite b) = (a \<le> b)"
| "f64_le PosInf y = False"
| "f64_le (Finite a) NegInf = False"

fun f64_lt :: "float64 \<Rightarrow> float64 \<Rightarrow> bool" where
  "f64_lt NaN y = False"
| "f64_lt x NaN = False"
| "f64_lt (Finite a) (Finite b) = (a < b)"
| "f64_lt NegInf NegInf = False"
| "f64_lt NegInf y = True"
| "f64_lt PosInf y = False"
| "f64_lt (Finite a) PosInf = True"
| "f64_lt (Finite a) NegInf = False"

definition f64_gt :: "float64 \<Rightarrow> float64 \<Rightarrow> bool" where
  "f64_gt x y = f64_lt y x"

text \<open>
  \<^verbatim>\<open>time.Time\<close>: the seconds and nanoseconds elapsed since January 1 of year 1, 00:00:00 UTC,
  which is the zero value that \<^verbatim>\<open>IsZero\<close> recognises. \<^verbatim>\<open>time.Unix(sec, nsec)\<close> shifts the
  Unix epoch by \<^verbatim>\<open>unixToInternal\<close> seconds after normalising the nanoseconds.
\<close>

record gotime =
  sec :: int
  nsec :: int

definition zero_time :: gotime where
  "zero_time = \<lparr>sec = 0, nsec = 0\<rparr>"

definition IsZero :: "gotime \<Rightarrow> bool" where
  "IsZero t = (sec t = 0 \<and> nsec t = 0)"

definition unixToInternal :: int where
  "unixToInternal = 62135596800"

definition time_Unix :: "int \<Rightarrow> int \<Rightarrow> gotime" where
  "time_Unix s n = \<lparr>sec = s + n div 1000000000 + unixToInternal, nsec = n mod 1000000000\<rparr>"

text \<open>An HTTP exchange as the adapters see it: the request they build and the response
  they read. \<^verbatim>\<open>Body\<close> is what \<^verbatim>\<open>io.ReadAll(resp.Body)\<close> gives: the bytes, or the text of
  the read error.\<close>

record http_request =
  Method :: string
  URL :: string
  ContentType :: string
  Payload :: string

record http_response =
  StatusCode :: int
  Body :: "string + string"

section \<open>Domain model (package domain)\<close>

type_synonym PaymentStatus = string

definition StatusPending :: PaymentStatus where "StatusPending = ''PENDING''"
definition StatusApproved :: PaymentStatus where "StatusApproved = ''APPROVED''"
definition StatusDeclined :: PaymentStatus where "StatusDeclined = ''DECLINED''"
definition StatusError :: PaymentStatus where "StatusError = ''ERROR''"
definition StatusCancelled :: PaymentStatus where "StatusCancelled = ''CANCELLED''"
definition StatusRefunded :: PaymentStatus where "StatusRefunded = ''REFUNDED''"

type_synonym Currency = string

definition USD :: Currency where "USD = ''USD''"
definition EUR :: Currency where "EUR = ''EUR''"
definition GBP :: Currency where "GBP = ''GBP''"

text \<open>The struct \<^verbatim>\<open>Payment\<close>. The two \<^verbatim>\<open>interface{}\<close> fields (Metadata, ProviderRawData)
  are \<^verbatim>\<open>nil\<close> unless set; no code of the core sets them.\<close>

record Payment =
  ID :: string
  Amount :: float64
  Currency :: Currency
  Status :: PaymentStatus
  Provider :: string
  Timestamp :: gotime
  TransactionID :: string
  ReferenceID :: string
  ErrorCode :: string
  ErrorMessage :: string
  Metadata :: "string option"
  PaymentRetryCount :: int
  LastRetryTime :: "gotime option"
  ProviderRawData :: "string option"

text \<open>The zero value of the struct, which a Go composite literal starts from.\<close>

definition zero_Payment :: Payment where
  "zero_Payment = \<lparr>ID = [], Amount = Finite 0, Currency = [], Status = [], Provider = [],
     Timestamp = zero_time, TransactionID = [], ReferenceID = [], ErrorCode = [],
     ErrorMessage = [], Metadata = None, PaymentRetryCount = 0, LastRetryTime = None,
     ProviderRawData = None\<rparr>"

record PaymentError =
  Code :: string
  Message :: string
  ErrProvider :: string
  Details :: "string option"
  Retryable :: bool
  HTTPStatus :: int

definition zero_PaymentError :: PaymentError where
  "zero_PaymentError = \<lparr>Code = [], Message = [], ErrProvider = [], Details = None,
     Retryable = False, HTTPStatus = 0\<rparr>"

text \<open>\<^verbatim>\<open>PaymentError.Error()\<close>.\<close>

definition PaymentError_Error :: "PaymentError \<Rightarrow> string" where
  "PaymentError_Error e =
    (if ErrProvider e \<noteq> [] then ''['' @ ErrProvider e @ ''] '' @ Code e @ '': '' @ Message e
     else Code e @ '': '' @ Message e)"

definition ErrInsufficientFunds :: string where "ErrInsufficientFunds = ''INSUFFICIENT_FUNDS''"
definition ErrCardDeclined :: string where "ErrCardDeclined = ''CARD_DECLINED''"
definition ErrInvalidAmount :: string where "ErrInvalidAmount = ''INVALID_AMOUNT''"
definition ErrInvalidCurrency :: string where "ErrInvalidCurrency = ''INVALID_CURRENCY''"
definition ErrProviderNotFound :: string where "ErrProviderNotFound = ''PROVIDER_NOT_FOUND''"
definition ErrProviderUnavailable :: string where "ErrProviderUnavailable = ''PROVIDER_UNAVAILABLE''"
definition ErrProviderTimeout :: string where "ErrProviderTimeout = ''PROVIDER_TIMEOUT''"
definition ErrProviderInvalidResp :: string where "ErrProviderInvalidResp = ''PROVIDER_INVALID_RESPONSE''"
definition ErrInvalidConfiguration :: string where "ErrInvalidConfiguration = ''INVALID_CONFIGURATION''"
definition ErrInvalidTimestamp :: string where "ErrInvalidTimestamp = ''INVALID_TIMESTAMP''"
definition ErrNetworkError :: string where "ErrNetworkError = ''NETWORK_ERROR''"
definition ErrInternalError :: string where "ErrInternalError = ''INTERNAL_ERROR''"
definition ErrRateLimitExceeded :: string where "ErrRateLimitExceeded = ''RATE_LIMIT_EXCEEDED''"
definition ErrTooManyRetries :: string where "ErrTooManyRetries = ''TOO_MANY_RETRIES''"
definition ErrDuplicateTransaction :: string where "ErrDuplicateTransaction = ''DUPLICATE_TRANSACTION''"
definition ErrTransactionNotFound :: string where "ErrTransactionNotFound = ''TRANSACTION_NOT_FOUND''"

text \<open>A Go function returning \<^verbatim>\<open>(*domain.Payment, *domain.PaymentError)\<close> returns two
  pointers, each of which may be \<^verbatim>\<open>nil\<close>.\<close>

type_synonym outcome = "Payment option \<times> PaymentError option"

definition failed :: "PaymentError \<Rightarrow> outcome" where
  "failed e = (None, Some e)"

definition paid :: "Payment \<Rightarrow> outcome" where
  "paid p = (Some p, None)"

section \<open>Configuration (package config)\<close>

record RetryPolicy =
  InitialDelay :: int
  MaxDelay :: int
  MaxAttempts :: int
  RetryableErrors :: "string list"
  RetryableCodes :: "int list"

record RateLimit =
  RequestsPerSecond :: int
  BurstSize :: int

record PaymentProviderConfig =
  Name :: string
  Endpoint :: string
  Timeout :: int
  RetryCount :: int
  MaxAmount :: float64
  Description :: string
  RetryPolicyOf :: RetryPolicy
  RateLimitOf :: RateLimit

section \<open>The world outside the repository\<close>

text \<open>
  The adapters call Go's standard library and the network. Neither is code of the
  repository, so both are parameters of the model; every theorem below holds for every
  value of them. A result \<open>Inl msg\<close> is a returned \<^verbatim>\<open>error\<close> whose \<^verbatim>\<open>Error()\<close> text is
  \<open>msg\<close>.
  \<^item> \<open>json_Marshal amount currency\<close>: \<^verbatim>\<open>json.Marshal\<close> of the request map;
  \<^item> \<open>http_NewRequest url body\<close>: the error of \<^verbatim>\<open>http.NewRequestWithContext\<close>, if any;
  \<^item> \<open>http_Do req\<close>: \<^verbatim>\<open>httpClient.Do\<close>, including the caller's context and deadline;
  \<^item> \<open>json_UnmarshalA\<close>, \<open>json_UnmarshalB\<close>: \<^verbatim>\<open>json.Unmarshal\<close> into each adapter's
    response struct;
  \<^item> \<open>strconv_ParseFloat\<close>: \<^verbatim>\<open>strconv.ParseFloat(s, 64)\<close>;
  \<^item> \<open>fmt_v\<close>, \<open>fmt_d\<close>: \<^verbatim>\<open>fmt.Sprintf\<close> of a float with \<^verbatim>\<open>%v\<close> and of an int with \<^verbatim>\<open>%d\<close>;
  \<^item> \<open>duration_String\<close>: \<^verbatim>\<open>time.Duration.String()\<close>;
  \<^item> \<open>time_Now\<close>: the clock.
\<close>

record respA =
  a_TransactionID :: string
  a_Status :: string
  a_Amount :: float64
  a_Currency :: string
  a_Timestamp :: gotime

record respB =
  b_PaymentID :: string
  b_State :: string
  b_ValueAmount :: string
  b_ValueCurrencyCode :: string
  b_ProcessedAt :: int

record env =
  json_Marshal :: "float64 \<Rightarrow> string \<Rightarrow> string + string"
  http_NewRequest :: "string \<Rightarrow> string \<Rightarrow> string option"
  http_Do :: "http_request \<Rightarrow> string + http_response"
  json_UnmarshalA :: "string \<Rightarrow> string + respA"
  json_UnmarshalB :: "string \<Rightarrow> string + respB"
  strconv_ParseFloat :: "string \<Rightarrow> string + float64"
  fmt_v :: "float64 \<Rightarrow> string"
  fmt_d :: "int \<Rightarrow> string"
  duration_String :: "int \<Rightarrow> string"
  time_Now :: gotime

text \<open>What an adapter does besides returning: the HTTP calls it issues, and the reads and
  parses of a response body.\<close>

datatype event = EvHttpDo http_request | EvReadAll | EvUnmarshal string

section \<open>Provider A (ProviderA.ProcessPayment)\<close>

text \<open>Local validation, serialisation and construction of the request: everything before
  \<^verbatim>\<open>p.httpClient.Do(req)\<close>.\<close>

definition ProviderA_prepare ::
  "env \<Rightarrow> PaymentProviderConfig \<Rightarrow> float64 \<Rightarrow> string \<Rightarrow> PaymentError + http_request" where
  "ProviderA_prepare env cfg amount currency =
    (if f64_le amount (Finite 0) then
       Inl (zero_PaymentError\<lparr>Code := ErrInvalidAmount,
              Message := ''Amount must be greater than 0'',
              ErrProvider := Name cfg, Retryable := False\<rparr>)
     else if f64_gt amount (MaxAmount cfg) then
       Inl (zero_PaymentError\<lparr>Code := ErrInvalidAmount,
              Message := ''Amount exceeds maximum limit of '' @ fmt_v env (MaxAmount cfg),
              ErrProvider := Name cfg, Retryable := False\<rparr>)
     else if currency = [] \<or> (currency \<noteq> USD \<and> currency \<noteq> EUR \<and> currency \<noteq> GBP) then
       Inl (zero_PaymentError\<lparr>Code := ErrInvalidCurrency,
              Message := ''Invalid or unsupported currency'',
              ErrProvider := Name cfg, Retryable := False\<rparr>)
     else
       (case json_Marshal env amount currency of
          Inl err \<Rightarrow>
            Inl (zero_PaymentError\<lparr>Code := ErrInternalError,
                   Message := ''Failed to marshal request body: '' @ err,
                   ErrProvider := Name cfg, Retryable := False, Details := Some err\<rparr>)
        | Inr body \<Rightarrow>
            (case http_NewRequest env (Endpoint cfg) body of
               Some err \<Rightarrow>
                 Inl (zero_PaymentError\<lparr>Code := ErrInternalError,
                        Message := ''Failed to create request: '' @ err,
                        ErrProvider := Name cfg, Retryable := False\<rparr>)
             | None \<Rightarrow>
                 Inr \<lparr>Method = ''POST'', URL = Endpoint cfg,
                      ContentType = ''application/json'', Payload = body\<rparr>)))"

text \<open>The response body once read: \<^verbatim>\<open>json.Unmarshal\<close>, the validation of the fields and the
  switch on the status.\<close>

definition ProviderA_parse :: "env \<Rightarrow> PaymentProviderConfig \<Rightarrow> string \<Rightarrow> outcome" where
  "ProviderA_parse env cfg respBody =
    (case json_UnmarshalA env respBody of
       Inl err \<Rightarrow>
         failed (zero_PaymentError\<lparr>Code := ErrProviderInvalidResp,
                   Message := ''Failed to parse response: '' @ err,
                   ErrProvider := Name cfg, Retryable := False, Details := Some respBody\<rparr>)
     | Inr response \<Rightarrow>
         (if a_TransactionID response = [] \<or> a_Status response = [] \<or> a_Currency response = [] then
            failed (zero_PaymentError\<lparr>Code := ErrProviderInvalidResp,
                      Message := ''Missing required fields in response'',
                      ErrProvider := Name cfg, Retryable := False, Details := Some respBody\<rparr>)
          else if IsZero (a_Timestamp response) then
            failed (zero_PaymentError\<lparr>Code := ErrProviderInvalidResp,
                      Message := ''Invalid timestamp in response'',
                      ErrProvider := Name cfg, Retryable := False, Details := Some respBody\<rparr>)
          else if a_Status response = ''APPROVED'' then
            paid (zero_Payment\<lparr>ID := a_TransactionID response,
                    Amount := a_Amount response,
                    Currency := a_Currency response,
                    Status := a_Status response,
                    Provider := Name cfg,
                    Timestamp := a_Timestamp response\<rparr>)
          else if a_Status response = ''DECLINED'' then
            failed (zero_PaymentError\<lparr>Code := ErrCardDeclined,
                      Message := ''Payment was declined'',
                      ErrProvider := Name cfg, Retryable := False\<rparr>)
          else
            failed (zero_PaymentError\<lparr>Code := ErrProviderInvalidResp,
                      Message := ''Invalid payment status: '' @ a_Status response,
                      ErrProvider := Name cfg, Retryable := False, Details := Some respBody\<rparr>)))"

text \<open>The response once received: the switch on the status code (429, 500 and 400 are its
  only cases), then \<^verbatim>\<open>io.ReadAll\<close> and the parse.\<close>

definition ProviderA_handle ::
  "env \<Rightarrow> PaymentProviderConfig \<Rightarrow> http_response \<Rightarrow> event list \<times> outcome" where
  "ProviderA_handle env cfg resp =
    (if StatusCode resp = 429 then
       ([], failed (zero_PaymentError\<lparr>Code := ErrRateLimitExceeded,
                      Message := ''Rate limit exceeded'',
                      ErrProvider := Name cfg, Retryable := True,
                      HTTPStatus := StatusCode resp\<rparr>))
     else if StatusCode resp = 500 then
       ([], failed (zero_PaymentError\<lparr>Code := ErrInternalError,
                      Message := ''Provider internal error'',
                      ErrProvider := Name cfg, Retryable := True,
                      HTTPStatus := StatusCode resp\<rparr>))
     else if StatusCode resp = 400 then
       ([], failed (zero_PaymentError\<lparr>Code := ErrInvalidAmount,
                      Message := ''Invalid request parameters'',
                      ErrProvider := Name cfg, Retryable := False,
                      HTTPStatus := StatusCode resp\<rparr>))
     else
       (case Body resp of
          Inl err \<Rightarrow>
            ([EvReadAll], failed (zero_PaymentError\<lparr>Code := ErrInternalError,
                                    Message := ''Failed to read response body: '' @ err,
                                    ErrProvider := Name cfg, Retryable := True,
                                    Details := Some err\<rparr>))
        | Inr respBody \<Rightarrow>
            ([EvReadAll, EvUnmarshal respBody], ProviderA_parse env cfg respBody)))"

definition ProviderA_ProcessPayment ::
  "env \<Rightarrow> PaymentProviderConfig \<Rightarrow> float64 \<Rightarrow> string \<Rightarrow> event list \<times> outcome" where
  "ProviderA_ProcessPayment env cfg amount currency =
    (case ProviderA_prepare env cfg amount currency of
       Inl e \<Rightarrow> ([], failed e)
     | Inr req \<Rightarrow>
         (case http_Do env req of
            Inl err \<Rightarrow>
              ([EvHttpDo req], failed (zero_PaymentError\<lparr>Code := ErrNetworkError,
                                         Message := ''Failed to send request: '' @ err,
                                         ErrProvider := Name cfg, Retryable := True,
                                         Details := Some err\<rparr>))
          | Inr resp \<Rightarrow>
              (EvHttpDo req # fst (ProviderA_handle env cfg resp),
               snd (ProviderA_handle env cfg resp))))"

section \<open>Provider B (ProviderB.ProcessPayment)\<close>

text \<open>Provider B's local validation leaves \<^verbatim>\<open>Provider\<close> and \<^verbatim>\<open>Retryable\<close> of its errors at
  their zero values, and accepts every non-empty currency.\<close>

definition ProviderB_prepare ::
  "env \<Rightarrow> PaymentProviderConfig \<Rightarrow> float64 \<Rightarrow> string \<Rightarrow> PaymentError + http_request" where
  "ProviderB_prepare env cfg amount currency =
    (if f64_le amount (Finite 0) then
       Inl (zero_PaymentError\<lparr>Code := ErrInvalidAmount,
              Message := ''Amount must be greater than 0''\<rparr>)
     else if f64_gt amount (MaxAmount cfg) then
       Inl (zero_PaymentError\<lparr>Code := ErrInvalidAmount,
              Message := ''Amount exceeds maximum limit of '' @ fmt_v env (MaxAmount cfg)\<rparr>)
     else if currency = [] then
       Inl (zero_PaymentError\<lparr>Code := ErrInvalidCurrency,
              Message := ''Currency is required''\<rparr>)
     else
       (case json_Marshal env amount currency of
          Inl err \<Rightarrow>
            Inl (zero_PaymentError\<lparr>Code := ErrInternalError,
                   Message := ''Failed to marshal request body'',
                   ErrProvider := Name cfg, Details := Some err, Retryable := False\<rparr>)
        | Inr body \<Rightarrow>
            (case http_NewRequest env (Endpoint cfg) body of
               Some err \<Rightarrow>
                 Inl (zero_PaymentError\<lparr>Code := ErrInternalError,
                        Message := ''Failed to create request''\<rparr>)
             | None \<Rightarrow>
                 Inr \<lparr>Method = ''POST'', URL = Endpoint cfg,
                      ContentType = ''application/json'', Payload = body\<rparr>)))"

text \<open>Go's integer division truncates towards zero (\<open>sdiv\<close>), so
  \<^verbatim>\<open>response.ProcessedAt/1000\<close> is \<open>b_ProcessedAt response sdiv 1000\<close>.\<close>

definition ProviderB_parse :: "env \<Rightarrow> PaymentProviderConfig \<Rightarrow> string \<Rightarrow> outcome" where
  "ProviderB_parse env cfg respBody =
    (case json_UnmarshalB env respBody of
       Inl err \<Rightarrow>
         failed (zero_PaymentError\<lparr>Code := ErrProviderInvalidResp,
                   Message := ''Failed to parse provider response: '' @ err,
                   ErrProvider := Name cfg, Retryable := False, Details := Some respBody\<rparr>)
     | Inr response \<Rightarrow>
         (if b_State response = ''SUCCESS'' then
            (case strconv_ParseFloat env (b_ValueAmount response) of
               Inl err \<Rightarrow>
                 failed (zero_PaymentError\<lparr>Code := ErrProviderInvalidResp,
                           Message := ''Invalid amount format in response: '' @ err,
                           ErrProvider := Name cfg, Retryable := False\<rparr>)
             | Inr amount \<Rightarrow>
                 (if b_ValueCurrencyCode response = [] then
                    failed (zero_PaymentError\<lparr>Code := ErrProviderInvalidResp,
                              Message := ''Missing currency in provider response'',
                              ErrProvider := Name cfg, Retryable := False\<rparr>)
                  else
                    paid (zero_Payment\<lparr>ID := b_PaymentID response,
                            Amount := amount,
                            Currency := b_ValueCurrencyCode response,
                            Status := StatusApproved,
                            Provider := Name cfg,
                            Timestamp := time_Unix (b_ProcessedAt response sdiv 1000) 0\<rparr>)))
          else if b_State response = ''FAILED'' then
            failed (zero_PaymentError\<lparr>Code := ErrCardDeclined,
                      Message := ''Payment was declined by provider'',
                      ErrProvider := Name cfg, Retryable := False\<rparr>)
          else
            failed (zero_PaymentError\<lparr>Code := ErrProviderInvalidResp,
                      Message := ''Invalid payment status from provider: '' @ b_State response,
                      ErrProvider := Name cfg, Retryable := False\<rparr>)))"

definition ProviderB_handle ::
  "env \<Rightarrow> PaymentProviderConfig \<Rightarrow> http_response \<Rightarrow> event list \<times> outcome" where
  "ProviderB_handle env cfg resp =
    (if StatusCode resp \<ge> 500 then
       ([], failed (zero_PaymentError\<lparr>Code := ErrProviderUnavailable,
                      Message := ''Provider error: '' @ fmt_d env (StatusCode resp),
                      ErrProvider := Name cfg, Retryable := True\<rparr>))
     else if StatusCode resp = 429 then
       ([], failed (zero_PaymentError\<lparr>Code := ErrRateLimitExceeded,
                      Message := ''Rate limit exceeded'',
                      ErrProvider := Name cfg, Retryable := True\<rparr>))
     else if StatusCode resp \<ge> 400 then
       ([], failed (zero_PaymentError\<lparr>Code := ErrProviderInvalidResp,
                      Message := ''Invalid request: '' @ fmt_d env (StatusCode resp),
                      ErrProvider := Name cfg, Retryable := False\<rparr>))
     else
       (case Body resp of
          Inl err \<Rightarrow>
            ([EvReadAll], failed (zero_PaymentError\<lparr>Code := ErrInternalError,
                                    Message := ''Failed to read response body: '' @ err,
                                    ErrProvider := Name cfg, Retryable := True\<rparr>))
        | Inr respBody \<Rightarrow>
            ([EvReadAll, EvUnmarshal respBody], ProviderB_parse env cfg respBody)))"

definition ProviderB_ProcessPayment ::
  "env \<Rightarrow> PaymentProviderConfig \<Rightarrow> float64 \<Rightarrow> string \<Rightarrow> event list \<times> outcome" where
  "ProviderB_ProcessPayment env cfg amount currency =
    (case ProviderB_prepare env cfg amount currency of
       Inl e \<Rightarrow> ([], failed e)
     | Inr req \<Rightarrow>
         (case http_Do env req of
            Inl err \<Rightarrow>
              ([EvHttpDo req],
               failed (zero_PaymentError\<lparr>
                  Code := (if err = ''context deadline exceeded'' then ErrProviderTimeout
                           else ErrNetworkError),
                  Message := ''Failed to send request: '' @ err,
                  ErrProvider := Name cfg, Retryable := True\<rparr>))
          | Inr resp \<Rightarrow>
              (EvHttpDo req # fst (ProviderB_handle env cfg resp),
               snd (ProviderB_handle env cfg resp))))"

section \<open>The provider interface (package repository)\<close>

text \<open>\<^verbatim>\<open>repository.PaymentProvider\<close> has two implementations; each holds its configuration
  (the HTTP client it also holds is the \<open>env\<close> parameter).\<close>

datatype PaymentProvider = ProviderA PaymentProviderConfig | ProviderB PaymentProviderConfig

definition NewProviderA :: "PaymentProviderConfig \<Rightarrow> PaymentProvider" where
  "NewProviderA cfg = ProviderA cfg"

definition NewProviderB :: "PaymentProviderConfig \<Rightarrow> PaymentProvider" where
  "NewProviderB cfg = ProviderB cfg"

fun provider_Name :: "PaymentProvider \<Rightarrow> string" where
  "provider_Name (ProviderA cfg) = Name cfg"
| "provider_Name (ProviderB cfg) = Name cfg"

text \<open>The values of a metadata map (\<^verbatim>\<open>map[string]interface{}\<close>): strings, ints, floats.\<close>

datatype meta_value = MetaString string | MetaInt int | MetaFloat float64

definition config_metadata :: "env \<Rightarrow> PaymentProviderConfig \<Rightarrow> (string \<rightharpoonup> meta_value)" where
  "config_metadata env cfg =
    [''name'' \<mapsto> MetaString (Name cfg),
     ''endpoint'' \<mapsto> MetaString (Endpoint cfg),
     ''timeout'' \<mapsto> MetaString (duration_String env (Timeout cfg)),
     ''retryCount'' \<mapsto> MetaInt (RetryCount cfg),
     ''maxAmount'' \<mapsto> MetaFloat (MaxAmount cfg),
     ''description'' \<mapsto> MetaString (Description cfg)]"

fun provider_GetMetadata :: "env \<Rightarrow> PaymentProvider \<Rightarrow> (string \<rightharpoonup> meta_value)" where
  "provider_GetMetadata env (ProviderA cfg) = config_metadata env cfg"
| "provider_GetMetadata env (ProviderB cfg) = config_metadata env cfg"

fun provider_ProcessPayment ::
  "env \<Rightarrow> PaymentProvider \<Rightarrow> float64 \<Rightarrow> string \<Rightarrow> event list \<times> outcome" where
  "provider_ProcessPayment env (ProviderA cfg) amount currency =
     ProviderA_ProcessPayment env cfg amount currency"
| "provider_ProcessPayment env (ProviderB cfg) amount currency =
     ProviderB_ProcessPayment env cfg amount currency"

record PaymentRequest =
  ReqAmount :: float64
  ReqCurrency :: string
  ReqProvider :: string

record PaymentResult =
  Request :: PaymentRequest
  ResPayment :: "Payment option"
  ResError :: "PaymentError option"

definition zero_PaymentRequest :: PaymentRequest where
  "zero_PaymentRequest = \<lparr>ReqAmount = Finite 0, ReqCurrency = [], ReqProvider = []\<rparr>"

definition zero_PaymentResult :: PaymentResult where
  "zero_PaymentResult = \<lparr>Request = zero_PaymentRequest, ResPayment = None, ResError = None\<rparr>"

section \<open>The factory (registry of providers)\<close>

text \<open>Go's \<^verbatim>\<open>int\<close> and \<^verbatim>\<open>int64\<close> counters are 64-bit words whose increment wraps;
  \<^verbatim>\<open>>=\<close> on them is the signed comparison.\<close>

record ProviderState =
  IsAvailable :: bool
  LastChecked :: gotime
  ConsecutiveErrs :: "64 word"
  ErrorCount :: "64 word"
  SuccessCount :: "64 word"
  LastError :: "PaymentError option"

definition zero_ProviderState :: ProviderState where
  "zero_ProviderState = \<lparr>IsAvailable = False, LastChecked = zero_time, ConsecutiveErrs = 0,
     ErrorCount = 0, SuccessCount = 0, LastError = None\<rparr>"

text \<open>The factory reads only \<^verbatim>\<open>config.Providers\<close> of its configuration. The maps hold
  pointers in Go; nothing outside the factory writes through them.\<close>

record Factory =
  config :: "string \<rightharpoonup> PaymentProviderConfig"
  providers :: "string \<rightharpoonup> PaymentProvider"
  providerStates :: "string \<rightharpoonup> ProviderState"

definition NewFactory :: "(string \<rightharpoonup> PaymentProviderConfig) \<Rightarrow> Factory" where
  "NewFactory cfg = \<lparr>config = cfg, providers = Map.empty, providerStates = Map.empty\<rparr>"

definition getOrCreateProvider ::
  "env \<Rightarrow> Factory \<Rightarrow> string \<Rightarrow> (PaymentError + PaymentProvider) \<times> Factory" where
  "getOrCreateProvider env f providerName =
    (case providers f providerName of
       Some provider \<Rightarrow> (Inr provider, f)
     | None \<Rightarrow>
         (case config f providerName of
            None \<Rightarrow>
              (Inl (zero_PaymentError\<lparr>Code := ErrProviderNotFound,
                      Message := ''Provider '' @ providerName @ '' not found''\<rparr>), f)
          | Some providerConfig \<Rightarrow>
              (if providerName = ''ProviderA'' \<or> providerName = ''ProviderB'' then
                 (let provider = (if providerName = ''ProviderA'' then NewProviderA providerConfig
                                  else NewProviderB providerConfig)
                  in (Inr provider,
                      f\<lparr>providerStates := (providerStates f)(providerName \<mapsto>
                            zero_ProviderState\<lparr>IsAvailable := True, LastChecked := time_Now env\<rparr>),
                        providers := (providers f)(providerName \<mapsto> provider)\<rparr>))
               else
                 (Inl (zero_PaymentError\<lparr>Code := ErrProviderNotFound,
                         Message := ''Provider '' @ providerName @ '' not supported''\<rparr>), f))))"

definition updateProviderState ::
  "env \<Rightarrow> Factory \<Rightarrow> string \<Rightarrow> bool \<Rightarrow> PaymentError option \<Rightarrow> Factory" where
  "updateProviderState env f providerName success err =
    (let state0 = (case providerStates f providerName of
                     None \<Rightarrow> zero_ProviderState
                   | Some s \<Rightarrow> s);
         state1 = state0\<lparr>LastChecked := time_Now env\<rparr>;
         state2 =
           (if success then
              state1\<lparr>IsAvailable := True, ConsecutiveErrs := 0,
                     SuccessCount := SuccessCount state1 + 1\<rparr>
            else
              (let state' = state1\<lparr>ConsecutiveErrs := ConsecutiveErrs state1 + 1,
                                   ErrorCount := ErrorCount state1 + 1,
                                   LastError := err\<rparr>
               in if word_sle 3 (ConsecutiveErrs state') then state'\<lparr>IsAvailable := False\<rparr>
                  else state'))
     in f\<lparr>providerStates := (providerStates f)(providerName \<mapsto> state2)\<rparr>)"

text \<open>\<^verbatim>\<open>Factory.ProcessPayment\<close>: resolve the adapter, delegate, record the outcome.\<close>

definition ProcessPayment ::
  "env \<Rightarrow> Factory \<Rightarrow> string \<Rightarrow> float64 \<Rightarrow> string \<Rightarrow> outcome \<times> Factory" where
  "ProcessPayment env f providerName amount currency =
    (case getOrCreateProvider env f providerName of
       (Inl err, f1) \<Rightarrow> ((None, Some err), f1)
     | (Inr provider, f1) \<Rightarrow>
         (case snd (provider_ProcessPayment env provider amount currency) of
            (payment, Some paymentErr) \<Rightarrow>
              ((None, Some paymentErr),
               updateProviderState env f1 providerName False (Some paymentErr))
          | (payment, None) \<Rightarrow>
              ((payment, None), updateProviderState env f1 providerName True None)))"

definition validateProviderConfig :: "PaymentProviderConfig \<Rightarrow> PaymentError option" where
  "validateProviderConfig cfg =
    (if Name cfg = [] then
       Some (zero_PaymentError\<lparr>Code := ErrInvalidConfiguration,
               Message := ''Provider name is required''\<rparr>)
     else if Endpoint cfg = [] then
       Some (zero_PaymentError\<lparr>Code := ErrInvalidConfiguration,
               Message := ''Endpoint is required for provider '' @ Name cfg\<rparr>)
     else if f64_le (MaxAmount cfg) (Finite 0) then
       Some (zero_PaymentError\<lparr>Code := ErrInvalidConfiguration,
               Message := ''Invalid max amount for provider '' @ Name cfg\<rparr>)
     else None)"

definition CreateProvider ::
  "env \<Rightarrow> Factory \<Rightarrow> string \<Rightarrow> (PaymentError + PaymentProvider) \<times> Factory" where
  "CreateProvider env f name =
    (case providers f name of
       Some provider \<Rightarrow> (Inr provider, f)
     | None \<Rightarrow>
         (case config f name of
            None \<Rightarrow>
              (Inl (zero_PaymentError\<lparr>Code := ErrProviderNotFound,
                      Message := ''No configuration found for provider: '' @ name\<rparr>), f)
          | Some cfg \<Rightarrow>
              (case validateProviderConfig cfg of
                 Some err \<Rightarrow> (Inl err, f)
               | None \<Rightarrow>
                   (if name = ''ProviderA'' \<or> name = ''ProviderB'' then
                      (let provider = (if name = ''ProviderA'' then NewProviderA cfg
                                       else NewProviderB cfg)
                       in (Inr provider,
                           f\<lparr>providerStates := (providerStates f)(name \<mapsto>
                                 zero_ProviderState\<lparr>IsAvailable := True,
                                                     LastChecked := time_Now env\<rparr>),
                             providers := (providers f)(name \<mapsto> provider)\<rparr>))
                    else
                      (Inl (zero_PaymentError\<lparr>Code := ErrProviderNotFound,
                              Message := ''Unknown provider type: '' @ name\<rparr>), f)))))"

text \<open>The exported \<^verbatim>\<open>UpdateProviderState\<close> does nothing for a name without a state.\<close>

definition UpdateProviderState ::
  "env \<Rightarrow> Factory \<Rightarrow> string \<Rightarrow> PaymentError option \<Rightarrow> Factory" where
  "UpdateProviderState env f name err =
    (case providerStates f name of
       None \<Rightarrow> f
     | Some state0 \<Rightarrow>
         (let state1 = state0\<lparr>LastChecked := time_Now env\<rparr>;
              state2 =
                (if err \<noteq> None then
                   (let state' = state1\<lparr>ConsecutiveErrs := ConsecutiveErrs state1 + 1,
                                        ErrorCount := ErrorCount state1 + 1,
                                        LastError := err\<rparr>
                    in if word_sle 3 (ConsecutiveErrs state') then state'\<lparr>IsAvailable := False\<rparr>
                       else state')
                 else
                   state1\<lparr>ConsecutiveErrs := 0, SuccessCount := SuccessCount state1 + 1,
                          IsAvailable := True\<rparr>)
          in f\<lparr>providerStates := (providerStates f)(name \<mapsto> state2)\<rparr>))"

definition GetProviderState :: "Factory \<Rightarrow> string \<Rightarrow> ProviderState option" where
  "GetProviderState f name = providerStates f name"

text \<open>\<^verbatim>\<open>GetProviderMetadata\<close> resolves the adapter the way \<^verbatim>\<open>ProcessPayment\<close> does, so it
  may instantiate and cache it.\<close>

definition GetProviderMetadata ::
  "env \<Rightarrow> Factory \<Rightarrow> string \<Rightarrow> (string \<rightharpoonup> meta_value) \<times> Factory" where
  "GetProviderMetadata env f providerName =
    (case getOrCreateProvider env f providerName of
       (Inl err, f') \<Rightarrow> ([''error'' \<mapsto> MetaString (PaymentError_Error err)], f')
     | (Inr provider, f') \<Rightarrow> (provider_GetMetadata env provider, f'))"

definition ListProviders :: "Factory \<Rightarrow> string set" where
  "ListProviders f = dom (config f)"

definition GetAllProviders :: "Factory \<Rightarrow> PaymentProvider set" where
  "GetAllProviders f = ran (providers f)"

section \<open>The batch dispatcher (Factory.BatchProcessPayments)\<close>

text \<open>
  The dispatcher runs six goroutines: the caller, which starts the workers, sends every
  index into the buffered channel, closes it and waits on the wait group; and
  \<open>workerCount\<close> workers, which receive indices until the channel is closed and drained.
  A worker's call of \<^verbatim>\<open>f.ProcessPayment\<close> is not atomic: the factory's mutex protects
  \<^verbatim>\<open>getOrCreateProvider\<close> and \<^verbatim>\<open>updateProviderState\<close> separately, and the adapter's HTTP
  call runs between them without a lock. A worker is therefore at one of these points:
  \<^item> \<open>WReceive\<close>: at \<^verbatim>\<open>for idx := range requestCh\<close>;
  \<^item> \<open>WResolve idx\<close>: holding \<open>idx\<close>, before \<^verbatim>\<open>getOrCreateProvider\<close>;
  \<^item> \<open>WCall idx provider\<close>: before \<^verbatim>\<open>provider.ProcessPayment\<close>;
  \<^item> \<open>WRecord idx out\<close>: the adapter has returned \<open>out\<close>, before \<^verbatim>\<open>updateProviderState\<close>;
  \<^item> \<open>WStore idx out\<close>: \<^verbatim>\<open>f.ProcessPayment\<close> has returned \<open>out\<close>, before the write of
    \<^verbatim>\<open>results[idx]\<close>;
  \<^item> \<open>WDone\<close>: the loop has ended and \<^verbatim>\<open>wg.Done()\<close> has run;
  \<^item> \<open>WPanic\<close>: an index out of range (Go panics).
\<close>

definition workerCount :: nat where
  "workerCount = 5"

datatype worker =
    WReceive
  | WResolve nat
  | WCall nat PaymentProvider
  | WRecord nat outcome
  | WStore nat outcome
  | WDone
  | WPanic

text \<open>The caller: in the loop that starts workers (\<open>MSpawn i\<close>), in the loop that sends
  indices (\<open>MSend i\<close>), before \<^verbatim>\<open>close(requestCh)\<close>, in \<^verbatim>\<open>wg.Wait()\<close>, or returned.\<close>

datatype main_pc = MSpawn nat | MSend nat | MClose | MWait | MReturned

datatype thread = Main | Worker nat

record batch =
  factory :: Factory
  results :: "PaymentResult list"
  requestCh :: "nat list"
  ch_closed :: bool
  wg :: nat
  workers :: "worker list"
  main :: main_pc

definition batch_init :: "Factory \<Rightarrow> PaymentRequest list \<Rightarrow> batch" where
  "batch_init f requests =
    \<lparr>factory = f, results = replicate (length requests) zero_PaymentResult, requestCh = [],
     ch_closed = False, wg = 0, workers = [], main = MSpawn 0\<rparr>"

text \<open>One step of the caller. A send blocks while the channel's buffer, of capacity
  \<^verbatim>\<open>len(requests)\<close>, is full; \<^verbatim>\<open>wg.Wait()\<close> blocks while the counter is not zero. A blocked
  step leaves the state as it is.\<close>

definition step_main :: "PaymentRequest list \<Rightarrow> batch \<Rightarrow> batch" where
  "step_main requests s =
    (case main s of
       MSpawn i \<Rightarrow>
         (if i < workerCount then
            s\<lparr>wg := wg s + 1, workers := workers s @ [WReceive], main := MSpawn (Suc i)\<rparr>
          else s\<lparr>main := MSend 0\<rparr>)
     | MSend i \<Rightarrow>
         (if i < length requests then
            (if length (requestCh s) < length requests then
               s\<lparr>requestCh := requestCh s @ [i], main := MSend (Suc i)\<rparr>
             else s)
          else s\<lparr>main := MClose\<rparr>)
     | MClose \<Rightarrow> s\<lparr>ch_closed := True, main := MWait\<rparr>
     | MWait \<Rightarrow> (if wg s = 0 then s\<lparr>main := MReturned\<rparr> else s)
     | MReturned \<Rightarrow> s)"

text \<open>One step of worker \<open>k\<close>. A receive blocks while the channel is empty and open.\<close>

definition step_worker :: "PaymentRequest list \<Rightarrow> env \<Rightarrow> nat \<Rightarrow> batch \<Rightarrow> batch" where
  "step_worker requests env k s =
    (if k < length (workers s) then
       (case workers s ! k of
          WReceive \<Rightarrow>
            (case requestCh s of
               idx # rest \<Rightarrow>
                 (if idx < length requests then
                    s\<lparr>requestCh := rest, workers := (workers s)[k := WResolve idx]\<rparr>
                  else s\<lparr>requestCh := rest, workers := (workers s)[k := WPanic]\<rparr>)
             | [] \<Rightarrow>
                 (if ch_closed s then
                    s\<lparr>wg := wg s - 1, workers := (workers s)[k := WDone]\<rparr>
                  else s))
        | WResolve idx \<Rightarrow>
            (case getOrCreateProvider env (factory s) (ReqProvider (requests ! idx)) of
               (Inl err, f') \<Rightarrow>
                 s\<lparr>factory := f', workers := (workers s)[k := WStore idx (None, Some err)]\<rparr>
             | (Inr provider, f') \<Rightarrow>
                 s\<lparr>factory := f', workers := (workers s)[k := WCall idx provider]\<rparr>)
        | WCall idx provider \<Rightarrow>
            s\<lparr>workers := (workers s)[k := WRecord idx
                  (snd (provider_ProcessPayment env provider
                          (ReqAmount (requests ! idx)) (ReqCurrency (requests ! idx))))]\<rparr>
        | WRecord idx out \<Rightarrow>
            (case out of
               (payment, Some paymentErr) \<Rightarrow>
                 s\<lparr>factory := updateProviderState env (factory s)
                                 (ReqProvider (requests ! idx)) False (Some paymentErr),
                   workers := (workers s)[k := WStore idx (None, Some paymentErr)]\<rparr>
             | (payment, None) \<Rightarrow>
                 s\<lparr>factory := updateProviderState env (factory s)
                                 (ReqProvider (requests ! idx)) True None,
                   workers := (workers s)[k := WStore idx (payment, None)]\<rparr>)
        | WStore idx out \<Rightarrow>
            (if idx < length (results s) then
               s\<lparr>results := (results s)[idx := \<lparr>Request = requests ! idx,
                                                 ResPayment = fst out, ResError = snd out\<rparr>],
                 workers := (workers s)[k := WReceive]\<rparr>
             else s\<lparr>workers := (workers s)[k := WPanic]\<rparr>)
        | WDone \<Rightarrow> s
        | WPanic \<Rightarrow> s)
     else s)"

fun step :: "PaymentRequest list \<Rightarrow> thread \<times> env \<Rightarrow> batch \<Rightarrow> batch" where
  "step requests (Main, env) s = step_main requests s"
| "step requests (Worker k, env) s = step_worker requests env k s"

text \<open>A schedule names, step by step, the goroutine that runs next and the world it
  finds (the transport's answer, the clock). \<open>exec\<close> runs a schedule.\<close>

fun exec :: "PaymentRequest list \<Rightarrow> (thread \<times> env) list \<Rightarrow> batch \<Rightarrow> batch" where
  "exec requests [] s = s"
| "exec requests (t # ts) s = exec requests ts (step requests t s)"

text \<open>\<^verbatim>\<open>BatchProcessPayments\<close> under a schedule: the results and the factory once the caller
  has returned from \<^verbatim>\<open>wg.Wait()\<close>; \<open>None\<close> when the schedule ends before that.\<close>

definition BatchProcessPayments ::
  "(thread \<times> env) list \<Rightarrow> Factory \<Rightarrow> PaymentRequest list
     \<Rightarrow> (PaymentResult list \<times> Factory) option" where
  "BatchProcessPayments sched f requests =
    (let s = exec requests sched (batch_init f requests)
     in if main s = MReturned then Some (results s, factory s) else None)"

section \<open>The lifetime of a factory\<close>

text \<open>The calls that can change a factory: its exported methods other than the pure
  readers. A batch is given with its schedule; its effect is the factory that the run,
  complete or not, leaves behind.\<close>

datatype call =
    CallProcessPayment string float64 string
  | CallBatchProcessPayments "(thread \<times> env) list" "PaymentRequest list"
  | CallCreateProvider string
  | CallUpdateProviderState string "PaymentError option"
  | CallGetProviderMetadata string

fun perform :: "env \<Rightarrow> call \<Rightarrow> Factory \<Rightarrow> Factory" where
  "perform env (CallProcessPayment name amount currency) f =
     snd (ProcessPayment env f name amount currency)"
| "perform env (CallBatchProcessPayments sched requests) f =
     factory (exec requests sched (batch_init f requests))"
| "perform env (CallCreateProvider name) f = snd (CreateProvider env f name)"
| "perform env (CallUpdateProviderState name err) f = UpdateProviderState env f name err"
| "perform env (CallGetProviderMetadata name) f = snd (GetProviderMetadata env f name)"

fun lifetime :: "Factory \<Rightarrow> (env \<times> call) list \<Rightarrow> Factory" where
  "lifetime f [] = f"
| "lifetime f ((env, c) # cs) = lifetime (perform env c f) cs"

text \<open>The health-state map has an entry exactly for the names with a cached adapter.\<close>

definition registry_ok :: "Factory \<Rightarrow> bool" where
  "registry_ok f = (dom (providerStates f) = dom (providers f))"

text \<open>A worker between resolution and recording works for a name that is cached.\<close>

fun resolved_for :: "PaymentRequest list \<Rightarrow> Factory \<Rightarrow> worker \<Rightarrow> bool" where
  "resolved_for requests f (WCall idx p) = (ReqProvider (requests ! idx) \<in> dom (providers f))"
| "resolved_for requests f (WRecord idx out) = (ReqProvider (requests ! idx) \<in> dom (providers f))"
| "resolved_for requests f w = True"

definition batch_registry_ok :: "PaymentRequest list \<Rightarrow> batch \<Rightarrow> bool" where
  "batch_registry_ok requests s =
    (registry_ok (factory s) \<and> (\<forall>w \<in> set (workers s). resolved_for requests (factory s) w))"

section \<open>The invariant of the dispatcher\<close>

text \<open>The index a worker is processing, if any.\<close>

fun holding :: "worker \<Rightarrow> nat option" where
  "holding (WResolve i) = Some i"
| "holding (WCall i p) = Some i"
| "holding (WRecord i out) = Some i"
| "holding (WStore i out) = Some i"
| "holding WReceive = None"
| "holding WDone = None"
| "holding WPanic = None"

definition held :: "worker list \<Rightarrow> nat \<Rightarrow> bool" where
  "held ws i = (\<exists>k < length ws. holding (ws ! k) = Some i)"

text \<open>An outcome carries a payment or an error, and not both.\<close>

definition wf_outcome :: "outcome \<Rightarrow> bool" where
  "wf_outcome out = ((fst out = None) \<noteq> (snd out = None))"

fun worker_ok :: "nat \<Rightarrow> worker \<Rightarrow> bool" where
  "worker_ok n WReceive = True"
| "worker_ok n (WResolve i) = (i < n)"
| "worker_ok n (WCall i p) = (i < n)"
| "worker_ok n (WRecord i out) = (i < n \<and> wf_outcome out)"
| "worker_ok n (WStore i out) = (i < n \<and> wf_outcome out)"
| "worker_ok n WDone = True"
| "worker_ok n WPanic = False"

text \<open>Slot \<open>i\<close> of the results has been written for request \<open>i\<close>.\<close>

definition slot_ok :: "PaymentRequest list \<Rightarrow> PaymentResult list \<Rightarrow> nat \<Rightarrow> bool" where
  "slot_ok requests rs i =
    (Request (rs ! i) = requests ! i \<and> wf_outcome (ResPayment (rs ! i), ResError (rs ! i)))"

text \<open>The number of indices the caller has sent so far.\<close>

fun sent :: "nat \<Rightarrow> main_pc \<Rightarrow> nat" where
  "sent n (MSpawn k) = 0"
| "sent n (MSend i) = i"
| "sent n MClose = n"
| "sent n MWait = n"
| "sent n MReturned = n"

fun spawned :: "main_pc \<Rightarrow> nat" where
  "spawned (MSpawn k) = k"
| "spawned (MSend i) = workerCount"
| "spawned MClose = workerCount"
| "spawned MWait = workerCount"
| "spawned MReturned = workerCount"

fun main_ok :: "nat \<Rightarrow> main_pc \<Rightarrow> bool" where
  "main_ok n (MSpawn k) = (k \<le> workerCount)"
| "main_ok n (MSend i) = (i \<le> n)"
| "main_ok n MClose = True"
| "main_ok n MWait = True"
| "main_ok n MReturned = True"

definition running :: "worker list \<Rightarrow> nat" where
  "running ws = length (filter (\<lambda>w. w \<noteq> WDone) ws)"

text \<open>Every index sent so far is in the channel, in the hands of a worker, or stored in
  its slot; no index is out of range; the channel is closed exactly once the caller
  waits; a worker that has left its loop has seen the channel closed and empty; the wait
  group counts the workers still running.\<close>

definition batch_inv :: "PaymentRequest list \<Rightarrow> batch \<Rightarrow> bool" where
  "batch_inv requests s =
    (length (results s) = length requests
     \<and> main_ok (length requests) (main s)
     \<and> (\<forall>w \<in> set (workers s). worker_ok (length requests) w)
     \<and> (\<forall>i \<in> set (requestCh s). i < sent (length requests) (main s))
     \<and> length (requestCh s) \<le> sent (length requests) (main s)
     \<and> (\<forall>i < sent (length requests) (main s).
           i \<in> set (requestCh s) \<or> held (workers s) i \<or> slot_ok requests (results s) i)
     \<and> (ch_closed s \<longleftrightarrow> main s = MWait \<or> main s = MReturned)
     \<and> (WDone \<in> set (workers s) \<longrightarrow> ch_closed s \<and> requestCh s = [])
     \<and> length (workers s) = spawned (main s)
     \<and> wg s = running (workers s)
     \<and> (main s = MReturned \<longrightarrow> running (workers s) = 0))"

text \<open>The work left: a bound on the number of steps that change the state.\<close>

fun worker_rank :: "worker \<Rightarrow> nat" where
  "worker_rank WReceive = 1"
| "worker_rank (WResolve i) = 5"
| "worker_rank (WCall i p) = 4"
| "worker_rank (WRecord i out) = 3"
| "worker_rank (WStore i out) = 2"
| "worker_rank WDone = 0"
| "worker_rank WPanic = 0"

fun main_rank :: "nat \<Rightarrow> main_pc \<Rightarrow> nat" where
  "main_rank n (MSpawn k) = 2 * (workerCount - k) + 6 * n + 4"
| "main_rank n (MSend i) = 6 * (n - i) + 3"
| "main_rank n MClose = 2"
| "main_rank n MWait = 1"
| "main_rank n MReturned = 0"

definition work_left :: "PaymentRequest list \<Rightarrow> batch \<Rightarrow> nat" where
  "work_left requests s =
    main_rank (length requests) (main s) + 5 * length (requestCh s)
      + sum_list (map worker_rank (workers s))"

section \<open>Inputs of the repository's tests\<close>

text \<open>The configurations of \<^verbatim>\<open>provider_a_test.go\<close> and of the Provider B test, and a mock
  world in the manner of \<^verbatim>\<open>httpclient.NewMockClient\<close>: one canned answer of the transport
  and one decoded body for each adapter.\<close>

definition zero_RetryPolicy :: RetryPolicy where
  "zero_RetryPolicy = \<lparr>InitialDelay = 0, MaxDelay = 0, MaxAttempts = 0,
     RetryableErrors = [], RetryableCodes = []\<rparr>"

definition zero_RateLimit :: RateLimit where
  "zero_RateLimit = \<lparr>RequestsPerSecond = 0, BurstSize = 0\<rparr>"

definition test_cfgA :: PaymentProviderConfig where
  "test_cfgA = \<lparr>Name = ''ProviderA'', Endpoint = ''http://test-provider-a.com'',
     Timeout = 5000000000, RetryCount = 3, MaxAmount = Finite 10000,
     Description = ''Test Provider A'', RetryPolicyOf = zero_RetryPolicy,
     RateLimitOf = zero_RateLimit\<rparr>"

definition test_cfgB :: PaymentProviderConfig where
  "test_cfgB = \<lparr>Name = ''ProviderB'', Endpoint = ''http://test-provider-b.com'',
     Timeout = 5000000000, RetryCount = 3, MaxAmount = Finite 10000,
     Description = ''Test Provider B'', RetryPolicyOf = zero_RetryPolicy,
     RateLimitOf = zero_RateLimit\<rparr>"

definition mock_ParseFloat :: "string \<Rightarrow> string + float64" where
  "mock_ParseFloat s =
    (if s = ''100.00'' then Inr (Finite 100)
     else if s = ''999.00'' then Inr (Finite 999)
     else Inl ''invalid syntax'')"

definition mock_env ::
  "(string + http_response) \<Rightarrow> (string + respA) \<Rightarrow> (string + respB) \<Rightarrow> env" where
  "mock_env answer decodedA decodedB =
    \<lparr>json_Marshal = (\<lambda>amount currency. Inr ''{}''),
     http_NewRequest = (\<lambda>url body. None),
     http_Do = (\<lambda>req. answer),
     json_UnmarshalA = (\<lambda>body. decodedA),
     json_UnmarshalB = (\<lambda>body. decodedB),
     strconv_ParseFloat = mock_ParseFloat,
     fmt_v = (\<lambda>x. ''?''),
     fmt_d = (\<lambda>n. ''?''),
     duration_String = (\<lambda>d. ''5s''),
     time_Now = \<lparr>sec = 63900000000, nsec = 0\<rparr>\<rparr>"

definition test_time :: gotime where
  "test_time = \<lparr>sec = 63840911400, nsec = 0\<rparr>"

definition approvedA :: respA where
  "approvedA = \<lparr>a_TransactionID = ''TXN-TEST-100'', a_Status = ''APPROVED'',
     a_Amount = Finite 100, a_Currency = ''USD'', a_Timestamp = test_time\<rparr>"

definition declinedA :: respA where
  "declinedA = \<lparr>a_TransactionID = ''TXN-TEST-999'', a_Status = ''DECLINED'',
     a_Amount = Finite 999, a_Currency = ''USD'', a_Timestamp = test_time\<rparr>"

definition successB :: respB where
  "successB = \<lparr>b_PaymentID = ''PAY-TEST-100'', b_State = ''SUCCESS'',
     b_ValueAmount = ''100.00'', b_ValueCurrencyCode = ''USD'',
     b_ProcessedAt = 1705318200000\<rparr>"

definition failedB :: respB where
  "failedB = \<lparr>b_PaymentID = ''PAY-TEST-999'', b_State = ''FAILED'',
     b_ValueAmount = ''999.00'', b_ValueCurrencyCode = ''USD'',
     b_ProcessedAt = 1705318200000\<rparr>"

definition mock_response :: "int \<Rightarrow> string + http_response" where
  "mock_response status = Inr \<lparr>StatusCode = status, Body = Inr ''{...}''\<rparr>"

definition mock_request :: "PaymentProviderConfig \<Rightarrow> http_request" where
  "mock_request cfg = \<lparr>Method = ''POST'', URL = Endpoint cfg,
     ContentType = ''application/json'', Payload = ''{}''\<rparr>"

definition test_factory :: Factory where
  "test_factory = NewFactory [''ProviderA'' \<mapsto> test_cfgA, ''ProviderB'' \<mapsto> test_cfgB]"

definition env_down :: env where
  "env_down = mock_env (mock_response 500) (Inr approvedA) (Inr successB)"

definition env_up :: env where
  "env_up = mock_env (mock_response 200) (Inr approvedA) (Inr successB)"

text \<open>Provider A's health after one, two and three failed calls and a successful fourth.\<close>

definition test_f1 :: Factory where
  "test_f1 = snd (ProcessPayment env_down test_factory ''ProviderA'' (Finite 100) ''USD'')"

definition test_f2 :: Factory where
  "test_f2 = snd (ProcessPayment env_down test_f1 ''ProviderA'' (Finite 100) ''USD'')"

definition test_f3 :: Factory where
  "test_f3 = snd (ProcessPayment env_down test_f2 ''ProviderA'' (Finite 100) ''USD'')"

definition test_f4 :: Factory where
  "test_f4 = snd (ProcessPayment env_up test_f3 ''ProviderA'' (Finite 100) ''USD'')"

text \<open>Configurations that \<^verbatim>\<open>validateProviderConfig\<close> rejects: the two of
  \<^verbatim>\<open>factory_test.go\<close>, and one for a name without an implementation.\<close>

definition test_cfgA_no_endpoint :: PaymentProviderConfig where
  "test_cfgA_no_endpoint = test_cfgA\<lparr>Endpoint := []\<rparr>"

definition test_cfgA_bad_max :: PaymentProviderConfig where
  "test_cfgA_bad_max = test_cfgA\<lparr>MaxAmount := Finite (- 1)\<rparr>"

definition test_cfgC_no_endpoint :: PaymentProviderConfig where
  "test_cfgC_no_endpoint = test_cfgA\<lparr>Name := ''ProviderC'', Endpoint := []\<rparr>"

text \<open>The end-to-end scenario: two requests, the second one declined by Provider B; and a
  schedule in which worker 0 takes the first request and worker 3 the second, with their
  steps interleaved so that the second request is stored first.\<close>

definition env_declined :: env where
  "env_declined = mock_env (mock_response 200) (Inr declinedA) (Inr failedB)"

definition test_requests :: "PaymentRequest list" where
  "test_requests =
    [\<lparr>ReqAmount = Finite 100, ReqCurrency = ''USD'', ReqProvider = ''ProviderA''\<rparr>,
     \<lparr>ReqAmount = Finite 999, ReqCurrency = ''USD'', ReqProvider = ''ProviderB''\<rparr>]"

definition test_schedule :: "(thread \<times> env) list" where
  "test_schedule =
    map (\<lambda>t. (t, env_up)) [Main, Main, Main, Main, Main, Main, Main, Worker 0, Main, Main,
       Worker 3, Worker 0, Worker 3, Worker 0]
    @ [(Worker 3, env_declined)]
    @ map (\<lambda>t. (t, env_up)) [Main, Worker 3, Worker 3, Worker 0, Worker 0, Worker 1, Worker 2,
       Worker 0, Worker 4, Worker 3, Main]"

text \<open>The same interleaving with both providers down: every HTTP call is answered 500.\<close>

definition test_schedule_down :: "(thread \<times> env) list" where
  "test_schedule_down =
    map (\<lambda>t. (t, env_down)) [Main, Main, Main, Main, Main, Main, Main, Worker 0, Main, Main,
       Worker 3, Worker 0, Worker 3, Worker 0, Worker 3, Main, Worker 3, Worker 3, Worker 0,
       Worker 0, Worker 1, Worker 2, Worker 0, Worker 4, Worker 3, Main]"

section \<open>Verification\<close>

lemmas err_codes = ErrInsufficientFunds_def ErrCardDeclined_def ErrInvalidAmount_def
  ErrInvalidCurrency_def ErrProviderNotFound_def ErrProviderUnavailable_def
  ErrProviderTimeout_def ErrProviderInvalidResp_def ErrInvalidConfiguration_def
  ErrInvalidTimestamp_def ErrNetworkError_def ErrInternalError_def ErrRateLimitExceeded_def
  ErrTooManyRetries_def ErrDuplicateTransaction_def ErrTransactionNotFound_def

subsection \<open>Local validation of the amount\<close>

text \<open>
  C6. For both adapters, an amount that is \<open>\<le> 0\<close> or exceeds the configured maximum makes
  \<^verbatim>\<open>ProcessPayment\<close> return no payment and an \<^verbatim>\<open>INVALID_AMOUNT\<close> error that is not
  retryable, and the adapter issues no HTTP call (its list of events is empty).
\<close>

theorem C6_invalid_amount_rejected_locally:
  assumes "f64_le amount (Finite 0) \<or> f64_gt amount (MaxAmount cfg)"
  shows "(\<exists>e. ProviderA_ProcessPayment env cfg amount currency = ([], (None, Some e))
              \<and> Code e = ErrInvalidAmount \<and> \<not> Retryable e)
       \<and> (\<exists>e. ProviderB_ProcessPayment env cfg amount currency = ([], (None, Some e))
              \<and> Code e = ErrInvalidAmount \<and> \<not> Retryable e)"
  using assms
  by (auto simp: ProviderA_ProcessPayment_def ProviderA_prepare_def
                 ProviderB_ProcessPayment_def ProviderB_prepare_def
                 failed_def zero_PaymentError_def)

theorem C6_invalid_amount_witness:
  "(f64_le (Finite (- 100)) (Finite 0) \<or> f64_gt (Finite (- 100)) (MaxAmount test_cfgA))
   \<and> (\<exists>e. ProviderA_ProcessPayment (mock_env (Inl ''unreachable'') (Inl []) (Inl []))
             test_cfgA (Finite (- 100)) ''USD'' = ([], (None, Some e))
          \<and> Code e = ErrInvalidAmount \<and> \<not> Retryable e)
   \<and> (\<exists>e. ProviderB_ProcessPayment (mock_env (Inl ''unreachable'') (Inl []) (Inl []))
             test_cfgA (Finite (- 100)) ''USD'' = ([], (None, Some e))
          \<and> Code e = ErrInvalidAmount \<and> \<not> Retryable e)"
proof -
  have h: "f64_le (Finite (- 100)) (Finite 0) \<or> f64_gt (Finite (- 100)) (MaxAmount test_cfgA)"
    by simp
  show ?thesis
    using h C6_invalid_amount_rejected_locally [OF h,
      of "mock_env (Inl ''unreachable'') (Inl []) (Inl [])" "''USD''"]
    by simp
qed

subsection \<open>Facts about the test inputs\<close>

lemma mock_env_sel:
  "json_Marshal (mock_env a da db) x c = Inr ''{}''"
  "http_NewRequest (mock_env a da db) u b = None"
  "http_Do (mock_env a da db) req = a"
  "json_UnmarshalA (mock_env a da db) body = da"
  "json_UnmarshalB (mock_env a da db) body = db"
  "strconv_ParseFloat (mock_env a da db) = mock_ParseFloat"
  by (simp_all add: mock_env_def)

lemma prepA_mock:
  "ProviderA_prepare (mock_env a da db) test_cfgA (Finite 100) ''USD''
     = Inr (mock_request test_cfgA)"
  by (simp add: ProviderA_prepare_def mock_env_sel mock_request_def test_cfgA_def
        f64_gt_def USD_def)

lemma prepB_mock:
  "ProviderB_prepare (mock_env a da db) test_cfgB (Finite 100) ''USD''
     = Inr (mock_request test_cfgB)"
  by (simp add: ProviderB_prepare_def mock_env_sel mock_request_def test_cfgB_def f64_gt_def)

subsection \<open>Triage of the status code: server errors\<close>

text \<open>
  C3, as stated: for both adapters every response with a status code \<open>\<ge> 500\<close> yields
  \<^verbatim>\<open>PROVIDER_UNAVAILABLE\<close>, retryable. Provider A does not: on status 500 its switch
  returns \<^verbatim>\<open>INTERNAL_ERROR\<close> (the case that \<^verbatim>\<open>provider_a_test.go\<close> expects under
  "provider error").
\<close>

theorem C3_counterexample:
  "map_option Code (snd (snd (ProviderA_ProcessPayment
      (mock_env (mock_response 500) (Inr approvedA) (Inl [])) test_cfgA (Finite 100) ''USD'')))
     = Some ErrInternalError
   \<and> ErrInternalError \<noteq> ErrProviderUnavailable"
  by (simp add: ProviderA_ProcessPayment_def prepA_mock mock_env_sel ProviderA_handle_def
        failed_def mock_response_def zero_PaymentError_def err_codes)

text \<open>
  C3, amended. Once the request has passed local validation and the transport has returned
  a response: Provider B answers every status code \<open>\<ge> 500\<close> with \<^verbatim>\<open>PROVIDER_UNAVAILABLE\<close>,
  retryable; Provider A answers status 500 with \<^verbatim>\<open>INTERNAL_ERROR\<close>, retryable. In both
  cases the only event is the HTTP call itself: the body is neither read nor parsed.
\<close>

theorem C3_server_errors:
  "(ProviderB_prepare env cfg amount currency = Inr req \<and> http_Do env req = Inr resp
      \<and> 500 \<le> StatusCode resp \<longrightarrow>
      (\<exists>e. ProviderB_ProcessPayment env cfg amount currency = ([EvHttpDo req], (None, Some e))
           \<and> Code e = ErrProviderUnavailable \<and> Retryable e))
   \<and> (ProviderA_prepare env cfg amount currency = Inr req \<and> http_Do env req = Inr resp
      \<and> StatusCode resp = 500 \<longrightarrow>
      (\<exists>e. ProviderA_ProcessPayment env cfg amount currency = ([EvHttpDo req], (None, Some e))
           \<and> Code e = ErrInternalError \<and> Retryable e))"
  by (simp add: ProviderA_ProcessPayment_def ProviderB_ProcessPayment_def
        ProviderA_handle_def ProviderB_handle_def failed_def zero_PaymentError_def)

theorem C3_server_errors_witness:
  "ProviderB_prepare (mock_env (mock_response 503) (Inl []) (Inr successB))
       test_cfgB (Finite 100) ''USD'' = Inr (mock_request test_cfgB)
   \<and> http_Do (mock_env (mock_response 503) (Inl []) (Inr successB)) (mock_request test_cfgB)
      = Inr \<lparr>StatusCode = 503, Body = Inr ''{...}''\<rparr>
   \<and> (500::int) \<le> StatusCode \<lparr>StatusCode = 503, Body = Inr ''{...}''\<rparr>
   \<and> (\<exists>e. ProviderB_ProcessPayment (mock_env (mock_response 503) (Inl []) (Inr successB))
              test_cfgB (Finite 100) ''USD'' = ([EvHttpDo (mock_request test_cfgB)], (None, Some e))
           \<and> Code e = ErrProviderUnavailable \<and> Retryable e)
   \<and> ProviderA_prepare (mock_env (mock_response 500) (Inr approvedA) (Inl []))
       test_cfgA (Finite 100) ''USD'' = Inr (mock_request test_cfgA)
   \<and> http_Do (mock_env (mock_response 500) (Inr approvedA) (Inl [])) (mock_request test_cfgA)
      = Inr \<lparr>StatusCode = 500, Body = Inr ''{...}''\<rparr>
   \<and> StatusCode \<lparr>StatusCode = 500, Body = Inr ''{...}''\<rparr> = (500::int)
   \<and> (\<exists>e. ProviderA_ProcessPayment (mock_env (mock_response 500) (Inr approvedA) (Inl []))
              test_cfgA (Finite 100) ''USD'' = ([EvHttpDo (mock_request test_cfgA)], (None, Some e))
           \<and> Code e = ErrInternalError \<and> Retryable e)"
proof -
  let ?envB = "mock_env (mock_response 503) (Inl []) (Inr successB)"
  let ?envA = "mock_env (mock_response 500) (Inr approvedA) (Inl [])"
  let ?rB = "\<lparr>StatusCode = 503, Body = Inr ''{...}''\<rparr>"
  let ?rA = "\<lparr>StatusCode = 500, Body = Inr ''{...}''\<rparr>"
  have b1: "ProviderB_prepare ?envB test_cfgB (Finite 100) ''USD'' = Inr (mock_request test_cfgB)"
    by (rule prepB_mock)
  have b2: "http_Do ?envB (mock_request test_cfgB) = Inr ?rB"
    by (simp add: mock_env_sel mock_response_def)
  have b3: "(500::int) \<le> StatusCode ?rB" by simp
  have a1: "ProviderA_prepare ?envA test_cfgA (Finite 100) ''USD'' = Inr (mock_request test_cfgA)"
    by (rule prepA_mock)
  have a2: "http_Do ?envA (mock_request test_cfgA) = Inr ?rA"
    by (simp add: mock_env_sel mock_response_def)
  have a3: "StatusCode ?rA = (500::int)" by simp
  from C3_server_errors [of ?envB test_cfgB "Finite 100" "''USD''" "mock_request test_cfgB" ?rB]
    b1 b2 b3
  have B: "\<exists>e. ProviderB_ProcessPayment ?envB test_cfgB (Finite 100) ''USD''
               = ([EvHttpDo (mock_request test_cfgB)], (None, Some e))
             \<and> Code e = ErrProviderUnavailable \<and> Retryable e"
    by blast
  from C3_server_errors [of ?envA test_cfgA "Finite 100" "''USD''" "mock_request test_cfgA" ?rA]
    a1 a2 a3
  have A: "\<exists>e. ProviderA_ProcessPayment ?envA test_cfgA (Finite 100) ''USD''
               = ([EvHttpDo (mock_request test_cfgA)], (None, Some e))
             \<and> Code e = ErrInternalError \<and> Retryable e"
    by blast
  from b1 b2 b3 B a1 a2 a3 A show ?thesis by blast
qed

subsection \<open>Triage of the status code: client errors\<close>

lemma ProviderB_client_errors:
  "ProviderB_prepare env cfg amount currency = Inr req \<Longrightarrow> http_Do env req = Inr resp
   \<Longrightarrow> 400 \<le> StatusCode resp \<Longrightarrow> StatusCode resp < 500 \<Longrightarrow> StatusCode resp \<noteq> 429
   \<Longrightarrow> \<exists>e. ProviderB_ProcessPayment env cfg amount currency = ([EvHttpDo req], (None, Some e))
           \<and> Code e = ErrProviderInvalidResp \<and> \<not> Retryable e"
  by (simp add: ProviderB_ProcessPayment_def ProviderB_handle_def failed_def zero_PaymentError_def)

lemma ProviderA_bad_request:
  "ProviderA_prepare env cfg amount currency = Inr req \<Longrightarrow> http_Do env req = Inr resp
   \<Longrightarrow> StatusCode resp = 400
   \<Longrightarrow> \<exists>e. ProviderA_ProcessPayment env cfg amount currency = ([EvHttpDo req], (None, Some e))
           \<and> Code e = ErrInvalidAmount \<and> \<not> Retryable e"
  by (simp add: ProviderA_ProcessPayment_def ProviderA_handle_def failed_def zero_PaymentError_def)

text \<open>
  C7. No 4xx response may proceed to body parsing or yield a payment. Provider B obeys
  (\<open>ProviderB_client_errors\<close>), and so does Provider A on 400 and 429; but Provider A's switch
  has no other case, so on a 404 whose body is a well-formed approval it reads the body,
  parses it and returns a payment.
\<close>

theorem C7_providerA_404_parsed:
  "ProviderA_ProcessPayment (mock_env (mock_response 404) (Inr approvedA) (Inl []))
      test_cfgA (Finite 100) ''USD''
   = ([EvHttpDo (mock_request test_cfgA), EvReadAll, EvUnmarshal ''{...}''],
      (Some (zero_Payment\<lparr>ID := ''TXN-TEST-100'', Amount := Finite 100, Currency := ''USD'',
               Status := ''APPROVED'', Provider := ''ProviderA'', Timestamp := test_time\<rparr>),
       None))"
  unfolding ProviderA_ProcessPayment_def prepA_mock
  by (simp add: mock_env_sel mock_response_def
        ProviderA_handle_def ProviderA_parse_def approvedA_def paid_def IsZero_def
        test_time_def test_cfgA_def)

subsection \<open>Returned payments are well formed\<close>

lemma ProviderA_payment_well_formed:
  "snd (ProviderA_ProcessPayment env cfg amount currency) = (Some p, e)
   \<Longrightarrow> ID p \<noteq> [] \<and> Status p \<noteq> [] \<and> Currency p \<noteq> [] \<and> \<not> IsZero (Timestamp p) \<and> e = None"
  by (auto simp: ProviderA_ProcessPayment_def ProviderA_handle_def ProviderA_parse_def
        failed_def paid_def zero_Payment_def split: sum.splits if_splits)

lemma ProviderB_payment_status_currency:
  "snd (ProviderB_ProcessPayment env cfg amount currency) = (Some p, e)
   \<Longrightarrow> Status p = StatusApproved \<and> Currency p \<noteq> [] \<and> e = None"
  by (auto simp: ProviderB_ProcessPayment_def ProviderB_handle_def ProviderB_parse_def
        failed_def paid_def zero_Payment_def split: sum.splits if_splits)

lemma ProviderB_zero_timestamp:
  "map_option Timestamp (fst (snd (ProviderB_ProcessPayment
      (mock_env (mock_response 200) (Inl [])
         (Inr (successB\<lparr>b_ProcessedAt := - 62135596800000\<rparr>)))
      test_cfgB (Finite 100) ''USD''))) = Some zero_time"
  unfolding ProviderB_ProcessPayment_def prepB_mock
  by (simp add: mock_env_sel mock_response_def
        ProviderB_handle_def ProviderB_parse_def successB_def paid_def mock_ParseFloat_def
        time_Unix_def unixToInternal_def zero_Payment_def zero_time_def)

text \<open>
  C2. A returned payment must have a non-empty identifier, status and currency and a non-zero
  timestamp. Provider A guarantees all four (\<open>ProviderA_payment_well_formed\<close>). Provider B
  checks the state, the amount and the currency only: on status 200 with a body that has
  no \<^verbatim>\<open>paymentId\<close> it returns a payment whose identifier is empty.
\<close>

theorem C2_providerB_payment_without_id:
  "ProviderB_ProcessPayment
      (mock_env (mock_response 200) (Inl []) (Inr (successB\<lparr>b_PaymentID := []\<rparr>)))
      test_cfgB (Finite 100) ''USD''
   = ([EvHttpDo (mock_request test_cfgB), EvReadAll, EvUnmarshal ''{...}''],
      (Some (zero_Payment\<lparr>ID := [], Amount := Finite 100, Currency := ''USD'',
               Status := ''APPROVED'', Provider := ''ProviderB'',
               Timestamp := \<lparr>sec = 63840915000, nsec = 0\<rparr>\<rparr>),
       None))"
  unfolding ProviderB_ProcessPayment_def prepB_mock
  by (simp add: mock_env_sel mock_response_def
        ProviderB_handle_def ProviderB_parse_def successB_def paid_def mock_ParseFloat_def
        time_Unix_def unixToInternal_def StatusApproved_def test_cfgB_def)

subsection \<open>The discriminator of a parsed response\<close>

lemma ProviderA_parsed:
  "ProviderA_prepare env cfg amount currency = Inr req \<Longrightarrow> http_Do env req = Inr resp
   \<Longrightarrow> 200 \<le> StatusCode resp \<Longrightarrow> StatusCode resp < 300 \<Longrightarrow> Body resp = Inr body
   \<Longrightarrow> ProviderA_ProcessPayment env cfg amount currency
       = ([EvHttpDo req, EvReadAll, EvUnmarshal body], ProviderA_parse env cfg body)"
  by (simp add: ProviderA_ProcessPayment_def ProviderA_handle_def)

lemma ProviderB_parsed:
  "ProviderB_prepare env cfg amount currency = Inr req \<Longrightarrow> http_Do env req = Inr resp
   \<Longrightarrow> 200 \<le> StatusCode resp \<Longrightarrow> StatusCode resp < 300 \<Longrightarrow> Body resp = Inr body
   \<Longrightarrow> ProviderB_ProcessPayment env cfg amount currency
       = ([EvHttpDo req, EvReadAll, EvUnmarshal body], ProviderB_parse env cfg body)"
  by (simp add: ProviderB_ProcessPayment_def ProviderB_handle_def)

text \<open>
  C8, as stated: on a parseable 2xx body a \<^verbatim>\<open>DECLINED\<close> status makes Provider A return
  \<^verbatim>\<open>CARD_DECLINED\<close>. Provider A validates the required fields before it looks at the status,
  so a declined body without a transaction id yields \<^verbatim>\<open>PROVIDER_INVALID_RESPONSE\<close>.
\<close>

theorem C8_counterexample:
  "ProviderA_prepare (mock_env (mock_response 200) (Inr (declinedA\<lparr>a_TransactionID := []\<rparr>)) (Inl []))
       test_cfgA (Finite 100) ''USD'' = Inr (mock_request test_cfgA)
   \<and> a_Status (declinedA\<lparr>a_TransactionID := []\<rparr>) = ''DECLINED''
   \<and> map_option Code (snd (snd (ProviderA_ProcessPayment
        (mock_env (mock_response 200) (Inr (declinedA\<lparr>a_TransactionID := []\<rparr>)) (Inl []))
        test_cfgA (Finite 100) ''USD''))) = Some ErrProviderInvalidResp
   \<and> ErrProviderInvalidResp \<noteq> ErrCardDeclined"
  unfolding ProviderA_ProcessPayment_def prepA_mock
  by (simp add: mock_env_sel mock_response_def ProviderA_handle_def ProviderA_parse_def
        declinedA_def failed_def zero_PaymentError_def err_codes)

text \<open>
  C8, amended. On a 2xx response whose body parses:
  \<^item> Provider B: state \<^verbatim>\<open>FAILED\<close> yields \<^verbatim>\<open>CARD_DECLINED\<close>, not retryable; a state other than
    \<^verbatim>\<open>SUCCESS\<close> and \<^verbatim>\<open>FAILED\<close> yields \<^verbatim>\<open>PROVIDER_INVALID_RESPONSE\<close>; a payment is returned
    only for state \<^verbatim>\<open>SUCCESS\<close>.
  \<^item> Provider A: status \<^verbatim>\<open>DECLINED\<close> yields \<^verbatim>\<open>CARD_DECLINED\<close>, not retryable, when the body
    also has a transaction id, a currency and a non-zero timestamp, and otherwise
    \<^verbatim>\<open>PROVIDER_INVALID_RESPONSE\<close>, not retryable; in neither case a payment;
    a status other than \<^verbatim>\<open>APPROVED\<close> and \<^verbatim>\<open>DECLINED\<close> yields \<^verbatim>\<open>PROVIDER_INVALID_RESPONSE\<close>;
    a payment is returned only for status \<^verbatim>\<open>APPROVED\<close>.
\<close>

theorem C8_discriminator:
  "(ProviderB_prepare env cfg amount currency = Inr req \<and> http_Do env req = Inr resp
      \<and> 200 \<le> StatusCode resp \<and> StatusCode resp < 300 \<and> Body resp = Inr body
      \<and> json_UnmarshalB env body = Inr rb \<longrightarrow>
      (b_State rb = ''FAILED'' \<longrightarrow>
         (\<exists>e. snd (ProviderB_ProcessPayment env cfg amount currency) = (None, Some e)
              \<and> Code e = ErrCardDeclined \<and> \<not> Retryable e))
      \<and> (b_State rb \<noteq> ''SUCCESS'' \<and> b_State rb \<noteq> ''FAILED'' \<longrightarrow>
         (\<exists>e. snd (ProviderB_ProcessPayment env cfg amount currency) = (None, Some e)
              \<and> Code e = ErrProviderInvalidResp \<and> \<not> Retryable e))
      \<and> (fst (snd (ProviderB_ProcessPayment env cfg amount currency)) \<noteq> None \<longrightarrow>
           b_State rb = ''SUCCESS''))
   \<and> (ProviderA_prepare env cfg amount currency = Inr req \<and> http_Do env req = Inr resp
      \<and> 200 \<le> StatusCode resp \<and> StatusCode resp < 300 \<and> Body resp = Inr body
      \<and> json_UnmarshalA env body = Inr ra \<longrightarrow>
      (a_Status ra = ''DECLINED'' \<and> a_TransactionID ra \<noteq> [] \<and> a_Currency ra \<noteq> []
          \<and> \<not> IsZero (a_Timestamp ra) \<longrightarrow>
         (\<exists>e. snd (ProviderA_ProcessPayment env cfg amount currency) = (None, Some e)
              \<and> Code e = ErrCardDeclined \<and> \<not> Retryable e))
      \<and> (a_Status ra = ''DECLINED''
          \<and> (a_TransactionID ra = [] \<or> a_Currency ra = [] \<or> IsZero (a_Timestamp ra)) \<longrightarrow>
         (\<exists>e. snd (ProviderA_ProcessPayment env cfg amount currency) = (None, Some e)
              \<and> Code e = ErrProviderInvalidResp \<and> \<not> Retryable e))
      \<and> (a_Status ra = ''DECLINED'' \<longrightarrow>
           fst (snd (ProviderA_ProcessPayment env cfg amount currency)) = None)
      \<and> (a_Status ra \<noteq> ''APPROVED'' \<and> a_Status ra \<noteq> ''DECLINED'' \<longrightarrow>
         (\<exists>e. snd (ProviderA_ProcessPayment env cfg amount currency) = (None, Some e)
              \<and> Code e = ErrProviderInvalidResp \<and> \<not> Retryable e))
      \<and> (fst (snd (ProviderA_ProcessPayment env cfg amount currency)) \<noteq> None \<longrightarrow>
           a_Status ra = ''APPROVED''))"
proof (intro conjI impI; (elim conjE)?)
  assume h: "ProviderB_prepare env cfg amount currency = Inr req" "http_Do env req = Inr resp"
    "200 \<le> StatusCode resp" "StatusCode resp < 300" "Body resp = Inr body"
    and u: "json_UnmarshalB env body = Inr rb"
  note P = ProviderB_parsed [OF h]
  { assume "b_State rb = ''FAILED''"
    then show "\<exists>e. snd (ProviderB_ProcessPayment env cfg amount currency) = (None, Some e)
              \<and> Code e = ErrCardDeclined \<and> \<not> Retryable e"
      by (simp add: P ProviderB_parse_def u failed_def zero_PaymentError_def) }
  { assume "b_State rb \<noteq> ''SUCCESS''" "b_State rb \<noteq> ''FAILED''"
    then show "\<exists>e. snd (ProviderB_ProcessPayment env cfg amount currency) = (None, Some e)
              \<and> Code e = ErrProviderInvalidResp \<and> \<not> Retryable e"
      by (simp add: P ProviderB_parse_def u failed_def zero_PaymentError_def) }
  { assume "fst (snd (ProviderB_ProcessPayment env cfg amount currency)) \<noteq> None"
    then show "b_State rb = ''SUCCESS''"
      by (simp add: P ProviderB_parse_def u failed_def split: if_splits) }
next
  assume h: "ProviderA_prepare env cfg amount currency = Inr req" "http_Do env req = Inr resp"
    "200 \<le> StatusCode resp" "StatusCode resp < 300" "Body resp = Inr body"
    and u: "json_UnmarshalA env body = Inr ra"
  note P = ProviderA_parsed [OF h]
  { assume "a_Status ra = ''DECLINED''" "a_TransactionID ra \<noteq> []" "a_Currency ra \<noteq> []"
      "\<not> IsZero (a_Timestamp ra)"
    then show "\<exists>e. snd (ProviderA_ProcessPayment env cfg amount currency) = (None, Some e)
              \<and> Code e = ErrCardDeclined \<and> \<not> Retryable e"
      by (simp add: P ProviderA_parse_def u failed_def zero_PaymentError_def) }
  { assume "a_Status ra = ''DECLINED''"
      "a_TransactionID ra = [] \<or> a_Currency ra = [] \<or> IsZero (a_Timestamp ra)"
    then show "\<exists>e. snd (ProviderA_ProcessPayment env cfg amount currency) = (None, Some e)
              \<and> Code e = ErrProviderInvalidResp \<and> \<not> Retryable e"
      by (auto simp: P ProviderA_parse_def u failed_def zero_PaymentError_def) }
  { assume "a_Status ra = ''DECLINED''"
    then show "fst (snd (ProviderA_ProcessPayment env cfg amount currency)) = None"
      by (simp add: P ProviderA_parse_def u failed_def) }
  { assume "a_Status ra \<noteq> ''APPROVED''" "a_Status ra \<noteq> ''DECLINED''"
    then show "\<exists>e. snd (ProviderA_ProcessPayment env cfg amount currency) = (None, Some e)
              \<and> Code e = ErrProviderInvalidResp \<and> \<not> Retryable e"
      by (simp add: P ProviderA_parse_def u failed_def zero_PaymentError_def) }
  { assume "fst (snd (ProviderA_ProcessPayment env cfg amount currency)) \<noteq> None"
    then show "a_Status ra = ''APPROVED''"
      by (simp add: P ProviderA_parse_def u failed_def split: if_splits) }
qed


theorem C8_discriminator_witness:
  "ProviderB_prepare (mock_env (mock_response 200) (Inl []) (Inr failedB))
       test_cfgB (Finite 100) ''USD'' = Inr (mock_request test_cfgB)
   \<and> http_Do (mock_env (mock_response 200) (Inl []) (Inr failedB)) (mock_request test_cfgB)
      = Inr \<lparr>StatusCode = 200, Body = Inr ''{...}''\<rparr>
   \<and> json_UnmarshalB (mock_env (mock_response 200) (Inl []) (Inr failedB)) ''{...}'' = Inr failedB
   \<and> b_State failedB = ''FAILED''
   \<and> (\<exists>e. snd (ProviderB_ProcessPayment (mock_env (mock_response 200) (Inl []) (Inr failedB))
                  test_cfgB (Finite 100) ''USD'') = (None, Some e)
           \<and> Code e = ErrCardDeclined \<and> \<not> Retryable e)
   \<and> ProviderA_prepare (mock_env (mock_response 200) (Inr declinedA) (Inl []))
       test_cfgA (Finite 100) ''USD'' = Inr (mock_request test_cfgA)
   \<and> http_Do (mock_env (mock_response 200) (Inr declinedA) (Inl [])) (mock_request test_cfgA)
      = Inr \<lparr>StatusCode = 200, Body = Inr ''{...}''\<rparr>
   \<and> json_UnmarshalA (mock_env (mock_response 200) (Inr declinedA) (Inl [])) ''{...}''
      = Inr declinedA
   \<and> a_Status declinedA = ''DECLINED'' \<and> a_TransactionID declinedA \<noteq> []
   \<and> a_Currency declinedA \<noteq> [] \<and> \<not> IsZero (a_Timestamp declinedA)
   \<and> (\<exists>e. snd (ProviderA_ProcessPayment (mock_env (mock_response 200) (Inr declinedA) (Inl []))
                  test_cfgA (Finite 100) ''USD'') = (None, Some e)
           \<and> Code e = ErrCardDeclined \<and> \<not> Retryable e)
   \<and> fst (snd (ProviderA_ProcessPayment (mock_env (mock_response 200) (Inr declinedA) (Inl []))
                  test_cfgA (Finite 100) ''USD'')) = None
   \<and> a_Status (declinedA\<lparr>a_TransactionID := []\<rparr>) = ''DECLINED''
   \<and> a_TransactionID (declinedA\<lparr>a_TransactionID := []\<rparr>) = []
   \<and> (\<exists>e. snd (ProviderA_ProcessPayment
                  (mock_env (mock_response 200) (Inr (declinedA\<lparr>a_TransactionID := []\<rparr>)) (Inl []))
                  test_cfgA (Finite 100) ''USD'') = (None, Some e)
           \<and> Code e = ErrProviderInvalidResp \<and> \<not> Retryable e)"
proof -
  let ?envB = "mock_env (mock_response 200) (Inl []) (Inr failedB)"
  let ?envA = "mock_env (mock_response 200) (Inr declinedA) (Inl [])"
  let ?r = "\<lparr>StatusCode = 200, Body = Inr ''{...}''\<rparr>"
  have b1: "ProviderB_prepare ?envB test_cfgB (Finite 100) ''USD'' = Inr (mock_request test_cfgB)"
    by (rule prepB_mock)
  have b2: "http_Do ?envB (mock_request test_cfgB) = Inr ?r"
    by (simp add: mock_env_sel mock_response_def)
  have b3: "json_UnmarshalB ?envB ''{...}'' = Inr failedB"
    by (simp add: mock_env_sel)
  have b4: "b_State failedB = ''FAILED''"
    by (simp add: failedB_def)
  have a1: "ProviderA_prepare ?envA test_cfgA (Finite 100) ''USD'' = Inr (mock_request test_cfgA)"
    by (rule prepA_mock)
  have a2: "http_Do ?envA (mock_request test_cfgA) = Inr ?r"
    by (simp add: mock_env_sel mock_response_def)
  have a3: "json_UnmarshalA ?envA ''{...}'' = Inr declinedA"
    by (simp add: mock_env_sel)
  have a4: "a_Status declinedA = ''DECLINED''" "a_TransactionID declinedA \<noteq> []"
    "a_Currency declinedA \<noteq> []" "\<not> IsZero (a_Timestamp declinedA)"
    by (simp_all add: declinedA_def IsZero_def test_time_def)
  have r: "(200::int) \<le> StatusCode ?r" "StatusCode ?r < (300::int)" "Body ?r = Inr ''{...}''"
    by simp_all
  from C8_discriminator [where env = ?envB and cfg = test_cfgB and amount = "Finite 100"
      and currency = "''USD''" and req = "mock_request test_cfgB" and resp = ?r
      and body = "''{...}''" and rb = failedB] b1 b2 b3 b4 r
  have B: "\<exists>e. snd (ProviderB_ProcessPayment ?envB test_cfgB (Finite 100) ''USD'') = (None, Some e)
             \<and> Code e = ErrCardDeclined \<and> \<not> Retryable e"
    by blast
  from C8_discriminator [where env = ?envA and cfg = test_cfgA and amount = "Finite 100"
      and currency = "''USD''" and req = "mock_request test_cfgA" and resp = ?r
      and body = "''{...}''" and ra = declinedA] a1 a2 a3 a4 r
  have A: "(\<exists>e. snd (ProviderA_ProcessPayment ?envA test_cfgA (Finite 100) ''USD'') = (None, Some e)
             \<and> Code e = ErrCardDeclined \<and> \<not> Retryable e)
           \<and> fst (snd (ProviderA_ProcessPayment ?envA test_cfgA (Finite 100) ''USD'')) = None"
    by blast
  let ?noid = "declinedA\<lparr>a_TransactionID := []\<rparr>"
  let ?envN = "mock_env (mock_response 200) (Inr ?noid) (Inl [])"
  have n1: "ProviderA_prepare ?envN test_cfgA (Finite 100) ''USD'' = Inr (mock_request test_cfgA)"
    by (rule prepA_mock)
  have n2: "http_Do ?envN (mock_request test_cfgA) = Inr ?r"
    by (simp add: mock_env_sel mock_response_def)
  have n3: "json_UnmarshalA ?envN ''{...}'' = Inr ?noid"
    by (simp add: mock_env_sel)
  have n4: "a_Status ?noid = ''DECLINED''" "a_TransactionID ?noid = []"
    by (simp_all add: declinedA_def)
  from C8_discriminator [where env = ?envN and cfg = test_cfgA and amount = "Finite 100"
      and currency = "''USD''" and req = "mock_request test_cfgA" and resp = ?r
      and body = "''{...}''" and ra = ?noid] n1 n2 n3 n4 r
  have N: "\<exists>e. snd (ProviderA_ProcessPayment ?envN test_cfgA (Finite 100) ''USD'') = (None, Some e)
             \<and> Code e = ErrProviderInvalidResp \<and> \<not> Retryable e"
    by blast
  from b1 b2 b3 b4 a1 a2 a3 a4 A B n4 N show ?thesis by blast
qed

subsection \<open>The factory: resolution and health state\<close>

lemma updateProviderState_state:
  "providerStates (updateProviderState env f name success err) name =
     Some (let s0 = (case providerStates f name of None \<Rightarrow> zero_ProviderState | Some s \<Rightarrow> s) in
       if success then
         s0\<lparr>LastChecked := time_Now env, IsAvailable := True, ConsecutiveErrs := 0,
            SuccessCount := SuccessCount s0 + 1\<rparr>
       else
         s0\<lparr>LastChecked := time_Now env, ConsecutiveErrs := ConsecutiveErrs s0 + 1,
            ErrorCount := ErrorCount s0 + 1, LastError := err,
            IsAvailable := (if word_sle 3 (ConsecutiveErrs s0 + 1) then False
                            else IsAvailable s0)\<rparr>)"
  by (simp add: updateProviderState_def Let_def)

lemma updateProviderState_frame:
  "providers (updateProviderState env f name success err) = providers f"
  "config (updateProviderState env f name success err) = config f"
  "n \<noteq> name \<Longrightarrow>
     providerStates (updateProviderState env f name success err) n = providerStates f n"
  by (simp_all add: updateProviderState_def Let_def)

lemma getOrCreateProvider_cached:
  "providers f name = Some p \<Longrightarrow> getOrCreateProvider env f name = (Inr p, f)"
  by (simp add: getOrCreateProvider_def)

lemma getOrCreateProvider_Inr:
  "getOrCreateProvider env f name = (Inr p, g) \<Longrightarrow> providers g name = Some p"
  by (auto simp: getOrCreateProvider_def Let_def split: option.splits if_splits)

lemma getOrCreateProvider_Inl:
  "getOrCreateProvider env f name = (Inl e, g) \<Longrightarrow> g = f \<and> Code e = ErrProviderNotFound"
  by (auto simp: getOrCreateProvider_def Let_def zero_PaymentError_def
           split: option.splits if_splits)

lemma ProcessPayment_resolved:
  "getOrCreateProvider env f name = (Inr provider, g) \<Longrightarrow>
   ProcessPayment env f name amount currency =
     (case snd (snd (provider_ProcessPayment env provider amount currency)) of
        Some e \<Rightarrow> ((None, Some e), updateProviderState env g name False (Some e))
      | None \<Rightarrow> ((fst (snd (provider_ProcessPayment env provider amount currency)), None),
                 updateProviderState env g name True None))"
  by (simp add: ProcessPayment_def split: prod.splits option.splits)

lemma ProcessPayment_unresolved:
  "getOrCreateProvider env f name = (Inl e, g) \<Longrightarrow>
   ProcessPayment env f name amount currency = ((None, Some e), f)"
  by (frule getOrCreateProvider_Inl) (simp add: ProcessPayment_def)

lemma ProcessPayment_failed_step:
  assumes "getOrCreateProvider env f name = (Inr p, g)"
    and "ProcessPayment env f name amount currency = (out, f')"
    and "snd out \<noteq> None"
  shows "f' = updateProviderState env g name False (snd out) \<and> providers f' name = Some p"
  using assms getOrCreateProvider_Inr [OF assms(1)]
  by (auto simp: ProcessPayment_resolved updateProviderState_frame split: option.splits)

lemma ProcessPayment_ok_step:
  assumes "getOrCreateProvider env f name = (Inr p, g)"
    and "ProcessPayment env f name amount currency = (out, f')"
    and "snd out = None"
  shows "f' = updateProviderState env g name True None \<and> providers f' name = Some p"
  using assms getOrCreateProvider_Inr [OF assms(1)]
  by (auto simp: ProcessPayment_resolved updateProviderState_frame split: option.splits)

lemma below_threshold:
  "\<not> word_sle 3 (1 :: 64 word)" "\<not> word_sle 3 (2 :: 64 word)" "word_sle 3 (3 :: 64 word)"
  by (simp_all add: word_sle_eq)

text \<open>
  C4. Let \<^verbatim>\<open>Factory.ProcessPayment\<close> resolve the adapter of \<open>name\<close>, and let \<open>s0\<close> be that
  provider's health state when the outcome is recorded (the zero state if there is none).
  \<^item> After a successful outcome \<^verbatim>\<open>ConsecutiveErrs\<close> is 0 and \<^verbatim>\<open>IsAvailable\<close> is true.
  \<^item> After a failed outcome \<^verbatim>\<open>ConsecutiveErrs\<close> is one more than in \<open>s0\<close> (Go's wrapping
    increment); if it has reached 3 then \<^verbatim>\<open>IsAvailable\<close> is false, and if it has not then
    \<^verbatim>\<open>IsAvailable\<close> is what it was in \<open>s0\<close>.
  \<^item> Starting from a count of 0, the first and the second failed call in a row leave the
    counts 1 and 2 and \<^verbatim>\<open>IsAvailable\<close> as it was; the third leaves \<^verbatim>\<open>ConsecutiveErrs = 3\<close>
    and \<^verbatim>\<open>IsAvailable = false\<close>; and one successful call after them leaves
    \<^verbatim>\<open>ConsecutiveErrs = 0\<close> and \<^verbatim>\<open>IsAvailable = true\<close>.
\<close>

theorem C4_health_state:
  "(getOrCreateProvider env f name = (Inr provider, g)
      \<and> (case providerStates g name of None \<Rightarrow> zero_ProviderState | Some s \<Rightarrow> s) = s0
      \<and> ProcessPayment env f name amount currency = (out, f') \<longrightarrow>
      (\<exists>s'. providerStates f' name = Some s'
          \<and> (snd out = None \<longrightarrow> ConsecutiveErrs s' = 0 \<and> IsAvailable s')
          \<and> (snd out \<noteq> None \<longrightarrow> ConsecutiveErrs s' = ConsecutiveErrs s0 + 1
                \<and> (word_sle 3 (ConsecutiveErrs s') \<longrightarrow> \<not> IsAvailable s')
                \<and> (\<not> word_sle 3 (ConsecutiveErrs s') \<longrightarrow>
                      IsAvailable s' = IsAvailable s0))))
   \<and> (getOrCreateProvider e1 f name = (Inr provider, g)
      \<and> (case providerStates g name of None \<Rightarrow> zero_ProviderState | Some s \<Rightarrow> s) = s0
      \<and> ConsecutiveErrs s0 = 0
      \<and> ProcessPayment e1 f name a1 c1 = (o1, f1) \<and> snd o1 \<noteq> None
      \<and> ProcessPayment e2 f1 name a2 c2 = (o2, f2) \<and> snd o2 \<noteq> None
      \<and> ProcessPayment e3 f2 name a3 c3 = (o3, f3) \<and> snd o3 \<noteq> None
      \<and> ProcessPayment e4 f3 name a4 c4 = (o4, f4) \<and> snd o4 = None \<longrightarrow>
      (\<exists>s1 s2 s3 s4.
          providerStates f1 name = Some s1
          \<and> ConsecutiveErrs s1 = 1 \<and> IsAvailable s1 = IsAvailable s0
          \<and> providerStates f2 name = Some s2
          \<and> ConsecutiveErrs s2 = 2 \<and> IsAvailable s2 = IsAvailable s0
          \<and> providerStates f3 name = Some s3
          \<and> ConsecutiveErrs s3 = 3 \<and> \<not> IsAvailable s3
          \<and> providerStates f4 name = Some s4
          \<and> ConsecutiveErrs s4 = 0 \<and> IsAvailable s4))"
proof (intro conjI impI; elim conjE)
  assume r: "getOrCreateProvider env f name = (Inr provider, g)"
    and s: "(case providerStates g name of None \<Rightarrow> zero_ProviderState | Some s \<Rightarrow> s) = s0"
    and p: "ProcessPayment env f name amount currency = (out, f')"
  show "\<exists>s'. providerStates f' name = Some s'
          \<and> (snd out = None \<longrightarrow> ConsecutiveErrs s' = 0 \<and> IsAvailable s')
          \<and> (snd out \<noteq> None \<longrightarrow> ConsecutiveErrs s' = ConsecutiveErrs s0 + 1
                \<and> (word_sle 3 (ConsecutiveErrs s') \<longrightarrow> \<not> IsAvailable s')
                \<and> (\<not> word_sle 3 (ConsecutiveErrs s') \<longrightarrow>
                      IsAvailable s' = IsAvailable s0))"
  proof (cases "snd out")
    case None
    from ProcessPayment_ok_step [OF r p None] s None show ?thesis
      by (simp add: updateProviderState_state Let_def)
  next
    case (Some e)
    then have ne: "snd out \<noteq> None" by simp
    from ProcessPayment_failed_step [OF r p ne] s Some show ?thesis
      by (simp add: updateProviderState_state Let_def)
  qed
next
  assume r: "getOrCreateProvider e1 f name = (Inr provider, g)"
    and s: "(case providerStates g name of None \<Rightarrow> zero_ProviderState | Some s \<Rightarrow> s) = s0"
    and z: "ConsecutiveErrs s0 = 0"
    and p1: "ProcessPayment e1 f name a1 c1 = (o1, f1)" and n1: "snd o1 \<noteq> None"
    and p2: "ProcessPayment e2 f1 name a2 c2 = (o2, f2)" and n2: "snd o2 \<noteq> None"
    and p3: "ProcessPayment e3 f2 name a3 c3 = (o3, f3)" and n3: "snd o3 \<noteq> None"
    and p4: "ProcessPayment e4 f3 name a4 c4 = (o4, f4)" and n4: "snd o4 = None"
  note k1 = ProcessPayment_failed_step [OF r p1 n1]
  note r2 = getOrCreateProvider_cached [of f1 name provider e2, OF conjunct2 [OF k1]]
  note k2 = ProcessPayment_failed_step [OF r2 p2 n2]
  note r3 = getOrCreateProvider_cached [of f2 name provider e3, OF conjunct2 [OF k2]]
  note k3 = ProcessPayment_failed_step [OF r3 p3 n3]
  note r4 = getOrCreateProvider_cached [of f3 name provider e4, OF conjunct2 [OF k3]]
  note k4 = ProcessPayment_ok_step [OF r4 p4 n4]
  have c1: "\<exists>s1. providerStates f1 name = Some s1 \<and> ConsecutiveErrs s1 = 1
              \<and> IsAvailable s1 = IsAvailable s0"
    using k1 s z by (auto simp: updateProviderState_state Let_def below_threshold)
  have c2: "\<exists>s2. providerStates f2 name = Some s2 \<and> ConsecutiveErrs s2 = 2
              \<and> IsAvailable s2 = IsAvailable s0"
    using k2 c1 by (auto simp: updateProviderState_state Let_def below_threshold)
  have c3: "\<exists>s3. providerStates f3 name = Some s3 \<and> ConsecutiveErrs s3 = 3 \<and> \<not> IsAvailable s3"
    using k3 c2 by (auto simp: updateProviderState_state Let_def below_threshold)
  have c4: "\<exists>s4. providerStates f4 name = Some s4 \<and> ConsecutiveErrs s4 = 0 \<and> IsAvailable s4"
    using k4 by (simp add: updateProviderState_state Let_def)
  from c1 c2 c3 c4 show "\<exists>s1 s2 s3 s4.
          providerStates f1 name = Some s1
          \<and> ConsecutiveErrs s1 = 1 \<and> IsAvailable s1 = IsAvailable s0
          \<and> providerStates f2 name = Some s2
          \<and> ConsecutiveErrs s2 = 2 \<and> IsAvailable s2 = IsAvailable s0
          \<and> providerStates f3 name = Some s3
          \<and> ConsecutiveErrs s3 = 3 \<and> \<not> IsAvailable s3
          \<and> providerStates f4 name = Some s4
          \<and> ConsecutiveErrs s4 = 0 \<and> IsAvailable s4"
    by blast
qed

lemma adapterA_down:
  "snd (snd (provider_ProcessPayment env_down (ProviderA test_cfgA) (Finite 100) ''USD'')) \<noteq> None"
  unfolding provider_ProcessPayment.simps ProviderA_ProcessPayment_def env_down_def prepA_mock
  by (simp add: mock_env_sel mock_response_def ProviderA_handle_def failed_def)

lemma adapterA_up:
  "snd (snd (provider_ProcessPayment env_up (ProviderA test_cfgA) (Finite 100) ''USD'')) = None"
  unfolding provider_ProcessPayment.simps ProviderA_ProcessPayment_def env_up_def prepA_mock
  by (simp add: mock_env_sel mock_response_def ProviderA_handle_def ProviderA_parse_def
        approvedA_def paid_def IsZero_def test_time_def)

lemma test_factory_resolves:
  "getOrCreateProvider env test_factory ''ProviderA''
     = (Inr (ProviderA test_cfgA), snd (getOrCreateProvider env test_factory ''ProviderA''))"
  by (simp add: getOrCreateProvider_def test_factory_def NewFactory_def NewProviderA_def Let_def)

lemma ProcessPayment_down:
  "getOrCreateProvider env_down f ''ProviderA'' = (Inr (ProviderA test_cfgA), g)
   \<Longrightarrow> snd (fst (ProcessPayment env_down f ''ProviderA'' (Finite 100) ''USD'')) \<noteq> None"
  using adapterA_down by (auto simp: ProcessPayment_resolved split: option.splits)

lemma ProcessPayment_up:
  "getOrCreateProvider env_up f ''ProviderA'' = (Inr (ProviderA test_cfgA), g)
   \<Longrightarrow> snd (fst (ProcessPayment env_up f ''ProviderA'' (Finite 100) ''USD'')) = None"
  using adapterA_up by (auto simp: ProcessPayment_resolved split: option.splits)

theorem C4_health_state_witness:
  "snd (fst (ProcessPayment env_down test_factory ''ProviderA'' (Finite 100) ''USD'')) \<noteq> None
   \<and> snd (fst (ProcessPayment env_down test_f1 ''ProviderA'' (Finite 100) ''USD'')) \<noteq> None
   \<and> snd (fst (ProcessPayment env_down test_f2 ''ProviderA'' (Finite 100) ''USD'')) \<noteq> None
   \<and> snd (fst (ProcessPayment env_up test_f3 ''ProviderA'' (Finite 100) ''USD'')) = None
   \<and> map_option ConsecutiveErrs (providerStates test_f1 ''ProviderA'') = Some 1
   \<and> map_option IsAvailable (providerStates test_f1 ''ProviderA'') = Some True
   \<and> map_option ConsecutiveErrs (providerStates test_f2 ''ProviderA'') = Some 2
   \<and> map_option IsAvailable (providerStates test_f2 ''ProviderA'') = Some True
   \<and> map_option ConsecutiveErrs (providerStates test_f3 ''ProviderA'') = Some 3
   \<and> map_option IsAvailable (providerStates test_f3 ''ProviderA'') = Some False
   \<and> map_option ConsecutiveErrs (providerStates test_f4 ''ProviderA'') = Some 0
   \<and> map_option IsAvailable (providerStates test_f4 ''ProviderA'') = Some True"
proof -
  let ?A = "ProviderA test_cfgA"
  let ?g = "snd (getOrCreateProvider env_down test_factory ''ProviderA'')"
  let ?s0 = "case providerStates ?g ''ProviderA'' of None \<Rightarrow> zero_ProviderState | Some s \<Rightarrow> s"
  let ?P1 = "ProcessPayment env_down test_factory ''ProviderA'' (Finite 100) ''USD''"
  let ?P2 = "ProcessPayment env_down test_f1 ''ProviderA'' (Finite 100) ''USD''"
  let ?P3 = "ProcessPayment env_down test_f2 ''ProviderA'' (Finite 100) ''USD''"
  let ?P4 = "ProcessPayment env_up test_f3 ''ProviderA'' (Finite 100) ''USD''"
  have r: "getOrCreateProvider env_down test_factory ''ProviderA'' = (Inr ?A, ?g)"
    by (rule test_factory_resolves)
  have z: "ConsecutiveErrs ?s0 = 0"
    by (simp add: getOrCreateProvider_def test_factory_def NewFactory_def Let_def
          zero_ProviderState_def)
  have p1: "?P1 = (fst ?P1, test_f1)" by (simp add: test_f1_def)
  have p2: "?P2 = (fst ?P2, test_f2)" by (simp add: test_f2_def)
  have p3: "?P3 = (fst ?P3, test_f3)" by (simp add: test_f3_def)
  have p4: "?P4 = (fst ?P4, test_f4)" by (simp add: test_f4_def)
  have n1: "snd (fst ?P1) \<noteq> None" by (rule ProcessPayment_down [OF r])
  note k1 = ProcessPayment_failed_step [OF r p1 n1]
  note r2 = getOrCreateProvider_cached [of test_f1 "''ProviderA''" ?A env_down, OF conjunct2 [OF k1]]
  have n2: "snd (fst ?P2) \<noteq> None" by (rule ProcessPayment_down [OF r2])
  note k2 = ProcessPayment_failed_step [OF r2 p2 n2]
  note r3 = getOrCreateProvider_cached [of test_f2 "''ProviderA''" ?A env_down, OF conjunct2 [OF k2]]
  have n3: "snd (fst ?P3) \<noteq> None" by (rule ProcessPayment_down [OF r3])
  note k3 = ProcessPayment_failed_step [OF r3 p3 n3]
  note r4 = getOrCreateProvider_cached [of test_f3 "''ProviderA''" ?A env_up, OF conjunct2 [OF k3]]
  have n4: "snd (fst ?P4) = None" by (rule ProcessPayment_up [OF r4])
  from C4_health_state [where ?e1.0 = env_down and f = test_factory and name = "''ProviderA''"
      and provider = ?A and g = ?g and ?s0.0 = ?s0
      and ?a1.0 = "Finite 100" and ?c1.0 = "''USD''" and ?o1.0 = "fst ?P1" and ?f1.0 = test_f1
      and ?e2.0 = env_down and ?a2.0 = "Finite 100" and ?c2.0 = "''USD''" and ?o2.0 = "fst ?P2"
      and ?f2.0 = test_f2
      and ?e3.0 = env_down and ?a3.0 = "Finite 100" and ?c3.0 = "''USD''" and ?o3.0 = "fst ?P3"
      and ?f3.0 = test_f3
      and ?e4.0 = env_up and ?a4.0 = "Finite 100" and ?c4.0 = "''USD''" and ?o4.0 = "fst ?P4"
      and ?f4.0 = test_f4]
    r z p1 n1 p2 n2 p3 n3 p4 n4
  have "\<exists>s1 s2 s3 s4.
          providerStates test_f1 ''ProviderA'' = Some s1
          \<and> ConsecutiveErrs s1 = 1 \<and> IsAvailable s1 = IsAvailable ?s0
          \<and> providerStates test_f2 ''ProviderA'' = Some s2
          \<and> ConsecutiveErrs s2 = 2 \<and> IsAvailable s2 = IsAvailable ?s0
          \<and> providerStates test_f3 ''ProviderA'' = Some s3
          \<and> ConsecutiveErrs s3 = 3 \<and> \<not> IsAvailable s3
          \<and> providerStates test_f4 ''ProviderA'' = Some s4
          \<and> ConsecutiveErrs s4 = 0 \<and> IsAvailable s4"
    by blast
  moreover have "IsAvailable ?s0"
    by (simp add: getOrCreateProvider_def test_factory_def NewFactory_def Let_def
          zero_ProviderState_def)
  ultimately show ?thesis using n1 n2 n3 n4 by auto
qed

subsection \<open>CreateProvider\<close>

lemma validateProviderConfig_invalid:
  "Name cfg = [] \<or> Endpoint cfg = [] \<or> f64_le (MaxAmount cfg) (Finite 0)
   \<Longrightarrow> \<exists>e. validateProviderConfig cfg = Some e \<and> Code e = ErrInvalidConfiguration"
  by (auto simp: validateProviderConfig_def zero_PaymentError_def)

lemma validateProviderConfig_valid:
  "validateProviderConfig cfg = None
   \<longleftrightarrow> Name cfg \<noteq> [] \<and> Endpoint cfg \<noteq> [] \<and> \<not> f64_le (MaxAmount cfg) (Finite 0)"
  by (auto simp: validateProviderConfig_def)

lemma CreateProvider_cached:
  "providers f name = Some p \<Longrightarrow> CreateProvider env f name = (Inr p, f)"
  by (simp add: CreateProvider_def)

lemma CreateProvider_Inr:
  "CreateProvider env f name = (Inr p, g) \<Longrightarrow> providers g name = Some p"
  by (auto simp: CreateProvider_def Let_def split: option.splits if_splits)

text \<open>
  C5, as stated: a name with no matching implementation yields \<^verbatim>\<open>PROVIDER_NOT_FOUND\<close>.
  \<^verbatim>\<open>CreateProvider\<close> validates the configuration before it looks for an implementation, so
  a configured name without implementation whose configuration has an empty endpoint
  yields \<^verbatim>\<open>INVALID_CONFIGURATION\<close>.
\<close>

theorem C5_counterexample:
  "''ProviderC'' \<noteq> ''ProviderA'' \<and> ''ProviderC'' \<noteq> ''ProviderB''
   \<and> map_sum Code id (fst (CreateProvider env_up
         (NewFactory [''ProviderC'' \<mapsto> test_cfgC_no_endpoint]) ''ProviderC''))
      = Inl ErrInvalidConfiguration
   \<and> ErrInvalidConfiguration \<noteq> ErrProviderNotFound"
  by (simp add: CreateProvider_def NewFactory_def validateProviderConfig_def
        test_cfgC_no_endpoint_def test_cfgA_def zero_PaymentError_def err_codes)

text \<open>
  C5, amended.
  \<^item> Idempotence: once \<^verbatim>\<open>CreateProvider\<close> has returned an adapter for a name, a further call
    with that name returns the same adapter and changes nothing, whatever the
    configuration has become in between (it is not validated again).
  \<^item> For a name not yet cached whose configuration has an empty name, an empty endpoint or
    a max-amount \<open>\<le> 0\<close>, the call yields \<^verbatim>\<open>INVALID_CONFIGURATION\<close> and leaves the factory
    unchanged; after the configuration has been corrected, a call for Provider A or B
    succeeds and caches the adapter.
  \<^item> For a name not yet cached that has no configuration, or that has a valid configuration
    but no implementation, the call yields \<^verbatim>\<open>PROVIDER_NOT_FOUND\<close> and leaves the factory
    unchanged.
\<close>

theorem C5_CreateProvider:
  "(CreateProvider env f name = (Inr p, f') \<longrightarrow>
      CreateProvider env' (f'\<lparr>config := cfgs\<rparr>) name = (Inr p, f'\<lparr>config := cfgs\<rparr>))
   \<and> (providers f name = None \<and> config f name = Some cfg
        \<and> (Name cfg = [] \<or> Endpoint cfg = [] \<or> f64_le (MaxAmount cfg) (Finite 0)) \<longrightarrow>
      (\<exists>e. CreateProvider env f name = (Inl e, f) \<and> Code e = ErrInvalidConfiguration)
      \<and> (validateProviderConfig cfg' = None \<and> (name = ''ProviderA'' \<or> name = ''ProviderB'') \<longrightarrow>
           (\<exists>q g. CreateProvider env' (f\<lparr>config := (config f)(name \<mapsto> cfg')\<rparr>) name = (Inr q, g)
                 \<and> providers g name = Some q)))
   \<and> (providers f name = None
        \<and> (config f name = None
            \<or> (\<exists>c. config f name = Some c \<and> validateProviderConfig c = None
                    \<and> name \<noteq> ''ProviderA'' \<and> name \<noteq> ''ProviderB'')) \<longrightarrow>
      (\<exists>e. CreateProvider env f name = (Inl e, f) \<and> Code e = ErrProviderNotFound))"
proof (intro conjI impI)
  assume "CreateProvider env f name = (Inr p, f')"
  then have "providers f' name = Some p" by (rule CreateProvider_Inr)
  then show "CreateProvider env' (f'\<lparr>config := cfgs\<rparr>) name = (Inr p, f'\<lparr>config := cfgs\<rparr>)"
    by (simp add: CreateProvider_def)
next
  assume h: "providers f name = None \<and> config f name = Some cfg
        \<and> (Name cfg = [] \<or> Endpoint cfg = [] \<or> f64_le (MaxAmount cfg) (Finite 0))"
  then obtain e where "validateProviderConfig cfg = Some e" "Code e = ErrInvalidConfiguration"
    using validateProviderConfig_invalid by blast
  with h show "\<exists>e. CreateProvider env f name = (Inl e, f) \<and> Code e = ErrInvalidConfiguration"
    by (simp add: CreateProvider_def)
next
  assume h: "providers f name = None \<and> config f name = Some cfg
        \<and> (Name cfg = [] \<or> Endpoint cfg = [] \<or> f64_le (MaxAmount cfg) (Finite 0))"
    and v: "validateProviderConfig cfg' = None \<and> (name = ''ProviderA'' \<or> name = ''ProviderB'')"
  then show "\<exists>q g. CreateProvider env' (f\<lparr>config := (config f)(name \<mapsto> cfg')\<rparr>) name = (Inr q, g)
                 \<and> providers g name = Some q"
    by (auto simp: CreateProvider_def Let_def)
next
  assume "providers f name = None
        \<and> (config f name = None
            \<or> (\<exists>c. config f name = Some c \<and> validateProviderConfig c = None
                    \<and> name \<noteq> ''ProviderA'' \<and> name \<noteq> ''ProviderB''))"
  then show "\<exists>e. CreateProvider env f name = (Inl e, f) \<and> Code e = ErrProviderNotFound"
    by (auto simp: CreateProvider_def zero_PaymentError_def)
qed

theorem C5_CreateProvider_witness:
  "fst (CreateProvider env_up test_factory ''ProviderA'') = Inr (ProviderA test_cfgA)
   \<and> fst (CreateProvider env_down
        ((snd (CreateProvider env_up test_factory ''ProviderA''))
           \<lparr>config := [''ProviderA'' \<mapsto> test_cfgA_no_endpoint]\<rparr>) ''ProviderA'')
      = Inr (ProviderA test_cfgA)
   \<and> providers (NewFactory [''ProviderA'' \<mapsto> test_cfgA_no_endpoint]) ''ProviderA'' = None
   \<and> Endpoint test_cfgA_no_endpoint = []
   \<and> (\<exists>e. CreateProvider env_up (NewFactory [''ProviderA'' \<mapsto> test_cfgA_no_endpoint]) ''ProviderA''
            = (Inl e, NewFactory [''ProviderA'' \<mapsto> test_cfgA_no_endpoint])
          \<and> Code e = ErrInvalidConfiguration)
   \<and> validateProviderConfig test_cfgA = None
   \<and> (\<exists>q g. CreateProvider env_up
          ((NewFactory [''ProviderA'' \<mapsto> test_cfgA_no_endpoint])
             \<lparr>config := [''ProviderA'' \<mapsto> test_cfgA]\<rparr>) ''ProviderA'' = (Inr q, g)
          \<and> providers g ''ProviderA'' = Some q)
   \<and> config test_factory ''NonExistentProvider'' = None
   \<and> (\<exists>e. CreateProvider env_up test_factory ''NonExistentProvider'' = (Inl e, test_factory)
          \<and> Code e = ErrProviderNotFound)"
proof -
  let ?bad = "NewFactory [''ProviderA'' \<mapsto> test_cfgA_no_endpoint]"
  let ?C = "CreateProvider env_up test_factory ''ProviderA''"
  have c: "?C = (Inr (ProviderA test_cfgA), snd ?C)"
    by (simp add: CreateProvider_def test_factory_def NewFactory_def validateProviderConfig_def
          test_cfgA_def NewProviderA_def Let_def)
  have b: "providers ?bad ''ProviderA'' = None \<and> config ?bad ''ProviderA'' = Some test_cfgA_no_endpoint
        \<and> (Name test_cfgA_no_endpoint = [] \<or> Endpoint test_cfgA_no_endpoint = []
            \<or> f64_le (MaxAmount test_cfgA_no_endpoint) (Finite 0))"
    by (simp add: NewFactory_def test_cfgA_no_endpoint_def)
  have v: "validateProviderConfig test_cfgA = None"
    by (simp add: validateProviderConfig_def test_cfgA_def)
  have n: "providers test_factory ''NonExistentProvider'' = None
        \<and> config test_factory ''NonExistentProvider'' = None"
    by (simp add: test_factory_def NewFactory_def)
  note T = C5_CreateProvider [where env = env_up and env' = env_down and f = test_factory
      and name = "''ProviderA''" and p = "ProviderA test_cfgA" and f' = "snd ?C"
      and cfgs = "[''ProviderA'' \<mapsto> test_cfgA_no_endpoint]"]
  note U = C5_CreateProvider [where env = env_up and env' = env_up and f = ?bad
      and name = "''ProviderA''" and cfg = test_cfgA_no_endpoint and cfg' = test_cfgA]
  note V = C5_CreateProvider [where env = env_up and f = test_factory
      and name = "''NonExistentProvider''"]
  have 1: "fst (CreateProvider env_down
        ((snd ?C)\<lparr>config := [''ProviderA'' \<mapsto> test_cfgA_no_endpoint]\<rparr>) ''ProviderA'')
      = Inr (ProviderA test_cfgA)"
    using T c by simp
  have 2: "\<exists>e. CreateProvider env_up ?bad ''ProviderA'' = (Inl e, ?bad)
          \<and> Code e = ErrInvalidConfiguration"
    using U b by blast
  have 3: "\<exists>q g. CreateProvider env_up (?bad\<lparr>config := [''ProviderA'' \<mapsto> test_cfgA]\<rparr>)
             ''ProviderA'' = (Inr q, g) \<and> providers g ''ProviderA'' = Some q"
    using U b v by (simp add: NewFactory_def)
  have 4: "\<exists>e. CreateProvider env_up test_factory ''NonExistentProvider'' = (Inl e, test_factory)
          \<and> Code e = ErrProviderNotFound"
    using V n by blast
  have c': "fst ?C = Inr (ProviderA test_cfgA)"
    using c by (metis fst_conv)
  have e: "Endpoint test_cfgA_no_endpoint = []"
    by (simp add: test_cfgA_no_endpoint_def)
  from c' 1 2 3 4 b v n e show ?thesis
    by blast
qed

subsection \<open>ProcessPayment does not validate the configuration\<close>

lemma ProviderA_codes:
  "snd (snd (ProviderA_ProcessPayment env cfg amount currency)) = Some e
   \<Longrightarrow> Code e \<in> {ErrInvalidAmount, ErrInvalidCurrency, ErrInternalError, ErrNetworkError,
                  ErrRateLimitExceeded, ErrProviderInvalidResp, ErrCardDeclined}"
  by (auto simp: ProviderA_ProcessPayment_def ProviderA_prepare_def ProviderA_handle_def
        ProviderA_parse_def failed_def paid_def zero_PaymentError_def
        split: sum.splits option.splits if_splits)

lemma ProviderB_codes:
  "snd (snd (ProviderB_ProcessPayment env cfg amount currency)) = Some e
   \<Longrightarrow> Code e \<in> {ErrInvalidAmount, ErrInvalidCurrency, ErrInternalError, ErrNetworkError,
                  ErrProviderTimeout, ErrProviderUnavailable, ErrRateLimitExceeded,
                  ErrProviderInvalidResp, ErrCardDeclined}"
  by (auto simp: ProviderB_ProcessPayment_def ProviderB_prepare_def ProviderB_handle_def
        ProviderB_parse_def failed_def paid_def zero_PaymentError_def
        split: sum.splits option.splits if_splits)

lemma provider_codes:
  "snd (snd (provider_ProcessPayment env p amount currency)) = Some e
   \<Longrightarrow> Code e \<noteq> ErrInvalidConfiguration"
proof (cases p)
  case (ProviderA cfg)
  assume "snd (snd (provider_ProcessPayment env p amount currency)) = Some e"
  with ProviderA ProviderA_codes [of env cfg amount currency e] show ?thesis
    by (auto simp: err_codes)
next
  case (ProviderB cfg)
  assume "snd (snd (provider_ProcessPayment env p amount currency)) = Some e"
  with ProviderB ProviderB_codes [of env cfg amount currency e] show ?thesis
    by (auto simp: err_codes)
qed

text \<open>
  C10. \<^verbatim>\<open>Factory.ProcessPayment\<close> never returns \<^verbatim>\<open>INVALID_CONFIGURATION\<close>: it does not
  validate the configuration. For a name that is configured and not yet cached:
  \<^item> if the name has an implementation (Provider A or B), the call instantiates the adapter
    from the configuration as it is and caches it, whatever the endpoint and the
    max-amount are, while \<^verbatim>\<open>CreateProvider\<close> on the same factory rejects the configuration
    when it is invalid;
  \<^item> if the name has no implementation there is no adapter to instantiate, and the call
    returns \<^verbatim>\<open>PROVIDER_NOT_FOUND\<close>, again whatever the configuration is.
\<close>

theorem C10_ProcessPayment_skips_validation:
  "(\<forall>e. snd (fst (ProcessPayment env f name amount currency)) = Some e
        \<longrightarrow> Code e \<noteq> ErrInvalidConfiguration)
   \<and> (providers f name = None \<and> config f name = Some cfg
        \<and> (name = ''ProviderA'' \<or> name = ''ProviderB'') \<longrightarrow>
      providers (snd (ProcessPayment env f name amount currency)) name
        = Some (if name = ''ProviderA'' then ProviderA cfg else ProviderB cfg)
      \<and> (validateProviderConfig cfg \<noteq> None \<longrightarrow>
           (\<exists>e. CreateProvider env f name = (Inl e, f) \<and> Code e = ErrInvalidConfiguration)))
   \<and> (providers f name = None \<and> config f name = Some cfg
        \<and> name \<noteq> ''ProviderA'' \<and> name \<noteq> ''ProviderB'' \<longrightarrow>
      (\<exists>e. ProcessPayment env f name amount currency = ((None, Some e), f)
           \<and> Code e = ErrProviderNotFound))"
proof (intro conjI allI impI)
  fix e
  assume a: "snd (fst (ProcessPayment env f name amount currency)) = Some e"
  obtain r g where r: "getOrCreateProvider env f name = (r, g)"
    by (cases "getOrCreateProvider env f name")
  show "Code e \<noteq> ErrInvalidConfiguration"
  proof (cases r)
    case (Inl e')
    with r a getOrCreateProvider_Inl [of env f name e' g] show ?thesis
      by (simp add: ProcessPayment_unresolved err_codes)
  next
    case (Inr p)
    with r a provider_codes [of env p amount currency e] show ?thesis
      by (auto simp: ProcessPayment_resolved split: option.splits)
  qed
next
  assume h: "providers f name = None \<and> config f name = Some cfg
        \<and> (name = ''ProviderA'' \<or> name = ''ProviderB'')"
  let ?p = "if name = ''ProviderA'' then ProviderA cfg else ProviderB cfg"
  from h have "\<exists>g. getOrCreateProvider env f name = (Inr ?p, g)"
    by (auto simp: getOrCreateProvider_def Let_def NewProviderA_def NewProviderB_def)
  then obtain g where g: "getOrCreateProvider env f name = (Inr ?p, g)" ..
  obtain out f' where p: "ProcessPayment env f name amount currency = (out, f')"
    by (cases "ProcessPayment env f name amount currency")
  have "providers f' name = Some ?p"
  proof (cases "snd out")
    case None
    from ProcessPayment_ok_step [OF g p None] show ?thesis by blast
  next
    case (Some e)
    then have "snd out \<noteq> None" by simp
    from ProcessPayment_failed_step [OF g p this] show ?thesis by blast
  qed
  with p show "providers (snd (ProcessPayment env f name amount currency)) name = Some ?p"
    by simp
next
  assume h: "providers f name = None \<and> config f name = Some cfg
        \<and> (name = ''ProviderA'' \<or> name = ''ProviderB'')"
    and v: "validateProviderConfig cfg \<noteq> None"
  then show "\<exists>e. CreateProvider env f name = (Inl e, f) \<and> Code e = ErrInvalidConfiguration"
    by (auto simp: CreateProvider_def validateProviderConfig_def zero_PaymentError_def
             split: if_splits)
next
  assume "providers f name = None \<and> config f name = Some cfg
        \<and> name \<noteq> ''ProviderA'' \<and> name \<noteq> ''ProviderB''"
  then show "\<exists>e. ProcessPayment env f name amount currency = ((None, Some e), f)
           \<and> Code e = ErrProviderNotFound"
    by (simp add: ProcessPayment_def getOrCreateProvider_def zero_PaymentError_def)
qed

theorem C10_ProcessPayment_skips_validation_witness:
  "providers (NewFactory [''ProviderA'' \<mapsto> test_cfgA_no_endpoint]) ''ProviderA'' = None
   \<and> validateProviderConfig test_cfgA_no_endpoint \<noteq> None
   \<and> providers (snd (ProcessPayment env_up (NewFactory [''ProviderA'' \<mapsto> test_cfgA_no_endpoint])
                       ''ProviderA'' (Finite 100) ''USD'')) ''ProviderA''
      = Some (ProviderA test_cfgA_no_endpoint)
   \<and> fst (fst (ProcessPayment env_up (NewFactory [''ProviderA'' \<mapsto> test_cfgA_no_endpoint])
                  ''ProviderA'' (Finite 100) ''USD'')) \<noteq> None
   \<and> (\<exists>e. CreateProvider env_up (NewFactory [''ProviderA'' \<mapsto> test_cfgA_no_endpoint]) ''ProviderA''
            = (Inl e, NewFactory [''ProviderA'' \<mapsto> test_cfgA_no_endpoint])
          \<and> Code e = ErrInvalidConfiguration)
   \<and> providers (snd (ProcessPayment env_up (NewFactory [''ProviderA'' \<mapsto> test_cfgA_bad_max])
                       ''ProviderA'' (Finite 100) ''USD'')) ''ProviderA''
      = Some (ProviderA test_cfgA_bad_max)
   \<and> map_option Code (snd (fst (ProcessPayment env_up
          (NewFactory [''ProviderA'' \<mapsto> test_cfgA_bad_max]) ''ProviderA'' (Finite 100) ''USD'')))
      = Some ErrInvalidAmount
   \<and> (\<exists>e. ProcessPayment env_up (NewFactory [''ProviderC'' \<mapsto> test_cfgC_no_endpoint])
            ''ProviderC'' (Finite 100) ''USD''
            = ((None, Some e), NewFactory [''ProviderC'' \<mapsto> test_cfgC_no_endpoint])
          \<and> Code e = ErrProviderNotFound)"
proof -
  let ?f = "NewFactory [''ProviderA'' \<mapsto> test_cfgA_no_endpoint]"
  let ?h = "NewFactory [''ProviderA'' \<mapsto> test_cfgA_bad_max]"
  have a: "providers ?f ''ProviderA'' = None \<and> config ?f ''ProviderA'' = Some test_cfgA_no_endpoint
        \<and> (''ProviderA'' = ''ProviderA'' \<or> ''ProviderA'' = ''ProviderB'')"
    by (simp add: NewFactory_def)
  have b: "providers ?h ''ProviderA'' = None \<and> config ?h ''ProviderA'' = Some test_cfgA_bad_max
        \<and> (''ProviderA'' = ''ProviderA'' \<or> ''ProviderA'' = ''ProviderB'')"
    by (simp add: NewFactory_def)
  have v: "validateProviderConfig test_cfgA_no_endpoint \<noteq> None"
    by (simp add: validateProviderConfig_def test_cfgA_no_endpoint_def test_cfgA_def)
  note T = C10_ProcessPayment_skips_validation [where env = env_up and f = ?f
      and name = "''ProviderA''" and cfg = test_cfgA_no_endpoint and amount = "Finite 100"
      and currency = "''USD''"]
  note U = C10_ProcessPayment_skips_validation [where env = env_up and f = ?h
      and name = "''ProviderA''" and cfg = test_cfgA_bad_max and amount = "Finite 100"
      and currency = "''USD''"]
  have 1: "providers (snd (ProcessPayment env_up ?f ''ProviderA'' (Finite 100) ''USD'')) ''ProviderA''
      = Some (ProviderA test_cfgA_no_endpoint)"
    using T a by simp
  have 2: "\<exists>e. CreateProvider env_up ?f ''ProviderA'' = (Inl e, ?f)
          \<and> Code e = ErrInvalidConfiguration"
    using T a v by blast
  have 3: "providers (snd (ProcessPayment env_up ?h ''ProviderA'' (Finite 100) ''USD'')) ''ProviderA''
      = Some (ProviderA test_cfgA_bad_max)"
    using U b by simp
  have gf: "getOrCreateProvider env_up ?f ''ProviderA''
      = (Inr (ProviderA test_cfgA_no_endpoint), snd (getOrCreateProvider env_up ?f ''ProviderA''))"
    by (simp add: getOrCreateProvider_def NewFactory_def NewProviderA_def Let_def)
  have gh: "getOrCreateProvider env_up ?h ''ProviderA''
      = (Inr (ProviderA test_cfgA_bad_max), snd (getOrCreateProvider env_up ?h ''ProviderA''))"
    by (simp add: getOrCreateProvider_def NewFactory_def NewProviderA_def Let_def)
  have pf: "ProviderA_ProcessPayment env_up test_cfgA_no_endpoint (Finite 100) ''USD''
      = ([EvHttpDo (mock_request test_cfgA_no_endpoint), EvReadAll, EvUnmarshal ''{...}''],
         ProviderA_parse env_up test_cfgA_no_endpoint ''{...}'')"
    by (simp add: ProviderA_ProcessPayment_def ProviderA_prepare_def ProviderA_handle_def
          env_up_def mock_env_sel mock_response_def mock_request_def
          test_cfgA_no_endpoint_def test_cfgA_def f64_gt_def USD_def)
  have 4: "fst (fst (ProcessPayment env_up ?f ''ProviderA'' (Finite 100) ''USD'')) \<noteq> None"
    unfolding ProcessPayment_resolved [OF gf] provider_ProcessPayment.simps pf
    by (simp add: ProviderA_parse_def env_up_def mock_env_sel
          approvedA_def paid_def IsZero_def test_time_def)
  have 5: "map_option Code (snd (fst (ProcessPayment env_up ?h ''ProviderA'' (Finite 100) ''USD'')))
      = Some ErrInvalidAmount"
    unfolding ProcessPayment_resolved [OF gh] provider_ProcessPayment.simps
    by (simp add: ProviderA_ProcessPayment_def
          ProviderA_prepare_def test_cfgA_bad_max_def test_cfgA_def f64_gt_def failed_def
          zero_PaymentError_def)
  have c: "providers (NewFactory [''ProviderC'' \<mapsto> test_cfgC_no_endpoint]) ''ProviderC'' = None
        \<and> config (NewFactory [''ProviderC'' \<mapsto> test_cfgC_no_endpoint]) ''ProviderC''
            = Some test_cfgC_no_endpoint
        \<and> ''ProviderC'' \<noteq> ''ProviderA'' \<and> ''ProviderC'' \<noteq> ''ProviderB''"
    by (simp add: NewFactory_def)
  from C10_ProcessPayment_skips_validation [where env = env_up
      and f = "NewFactory [''ProviderC'' \<mapsto> test_cfgC_no_endpoint]"
      and name = "''ProviderC''" and cfg = test_cfgC_no_endpoint and amount = "Finite 100"
      and currency = "''USD''"] c
  have 6: "\<exists>e. ProcessPayment env_up (NewFactory [''ProviderC'' \<mapsto> test_cfgC_no_endpoint])
            ''ProviderC'' (Finite 100) ''USD''
            = ((None, Some e), NewFactory [''ProviderC'' \<mapsto> test_cfgC_no_endpoint])
          \<and> Code e = ErrProviderNotFound"
    by blast
  from a v 1 2 3 4 5 6 show ?thesis by blast
qed

subsection \<open>The dispatcher: the invariant holds along every schedule\<close>

lemma provider_outcome_wf:
  "wf_outcome (snd (provider_ProcessPayment env p amount currency))"
  by (cases p)
     (auto simp: wf_outcome_def ProviderA_ProcessPayment_def ProviderA_handle_def
        ProviderA_parse_def ProviderB_ProcessPayment_def ProviderB_handle_def
        ProviderB_parse_def failed_def paid_def split: sum.splits if_splits)

lemma sent_le: "main_ok n pc \<Longrightarrow> sent n pc \<le> n"
  by (cases pc) simp_all

lemma held_append: "held ws i \<Longrightarrow> held (ws @ [w]) i"
  by (auto simp: held_def nth_append intro: exI [where x = k for k])

lemma held_update_same: "k < length ws \<Longrightarrow> holding w = Some i \<Longrightarrow> held (ws[k := w]) i"
  by (auto simp: held_def intro: exI [where x = k])

lemma held_update_other:
  assumes "held ws i" and "holding (ws ! k) \<noteq> Some i"
  shows "held (ws[k := w]) i"
proof -
  from assms(1) obtain j where j: "j < length ws" "holding (ws ! j) = Some i"
    by (auto simp: held_def)
  with assms(2) have "j \<noteq> k" by auto
  with j show ?thesis
    by (auto simp: held_def intro: exI [where x = j])
qed

lemma running_append: "running (ws @ [w]) = running ws + (if w = WDone then 0 else 1)"
  by (simp add: running_def)

lemma running_Cons: "running (a # ws) = (if a = WDone then 0 else 1) + running ws"
  by (simp add: running_def)

lemma running_update:
  "k < length ws \<Longrightarrow>
   running (ws[k := w]) + (if ws ! k = WDone then 0 else 1)
     = running ws + (if w = WDone then 0 else 1)"
proof (induction ws arbitrary: k)
  case Nil
  then show ?case by simp
next
  case (Cons a ws)
  show ?case
  proof (cases k)
    case 0
    then show ?thesis by (simp add: running_Cons)
  next
    case (Suc j)
    with Cons.prems have "j < length ws" by simp
    from Cons.IH [OF this] Suc show ?thesis
      by (simp add: running_Cons)
  qed
qed

lemma running_zero: "running ws = 0 \<longleftrightarrow> (\<forall>w \<in> set ws. w = WDone)"
  by (auto simp: running_def filter_empty_conv)

lemma running_pos: "k < length ws \<Longrightarrow> ws ! k \<noteq> WDone \<Longrightarrow> 0 < running ws"
  using running_zero [of ws] nth_mem [of k ws] by auto

lemma worker_ok_update:
  "\<forall>w \<in> set ws. worker_ok n w \<Longrightarrow> worker_ok n w' \<Longrightarrow> \<forall>w \<in> set (ws[k := w']). worker_ok n w"
  using set_update_subset_insert [of ws k w'] by auto

lemma WDone_update: "WDone \<in> set (ws[k := w]) \<Longrightarrow> w \<noteq> WDone \<Longrightarrow> WDone \<in> set ws"
  using set_update_subset_insert [of ws k w] by auto

lemma batch_inv_init: "batch_inv requests (batch_init f requests)"
  by (simp add: batch_inv_def batch_init_def held_def running_def)

lemma batch_inv_step_main:
  assumes "batch_inv requests s"
  shows "batch_inv requests (step_main requests s)"
proof (cases "main s")
  case (MSpawn k)
  with assms show ?thesis
    by (auto simp: batch_inv_def step_main_def running_append workerCount_def held_append)
next
  case (MSend i)
  with assms show ?thesis
    by (auto simp: batch_inv_def step_main_def less_Suc_eq)
next
  case MClose
  with assms show ?thesis
    by (auto simp: batch_inv_def step_main_def)
next
  case MWait
  with assms show ?thesis
    by (auto simp: batch_inv_def step_main_def)
next
  case MReturned
  with assms show ?thesis
    by (auto simp: batch_inv_def step_main_def)
qed

lemma batch_invD:
  assumes "batch_inv requests s"
  shows "length (results s) = length requests"
    and "main_ok (length requests) (main s)"
    and "\<forall>w \<in> set (workers s). worker_ok (length requests) w"
    and "\<forall>i \<in> set (requestCh s). i < sent (length requests) (main s)"
    and "length (requestCh s) \<le> sent (length requests) (main s)"
    and "\<forall>i < sent (length requests) (main s).
           i \<in> set (requestCh s) \<or> held (workers s) i \<or> slot_ok requests (results s) i"
    and "ch_closed s \<longleftrightarrow> main s = MWait \<or> main s = MReturned"
    and "WDone \<in> set (workers s) \<longrightarrow> ch_closed s \<and> requestCh s = []"
    and "length (workers s) = spawned (main s)"
    and "wg s = running (workers s)"
    and "main s = MReturned \<longrightarrow> running (workers s) = 0"
  using assms by (auto simp: batch_inv_def)

text \<open>The effect of a step of a running worker \<open>k\<close> on the invariant: the worker's new
  point is in range, the results keep their length, the channel only loses elements,
  every index sent is still accounted for, a worker leaves only on a closed and empty
  channel, and the wait group follows.\<close>

lemma batch_inv_worker_update:
  assumes inv: "batch_inv requests s" and k: "k < length (workers s)"
    and act: "workers s ! k \<noteq> WDone"
    and ok: "worker_ok (length requests) w'"
    and len: "length rs' = length requests"
    and sub: "set ch' \<subseteq> set (requestCh s)" "length ch' \<le> length (requestCh s)"
    and place: "\<And>i. i < sent (length requests) (main s) \<Longrightarrow>
                  i \<in> set ch' \<or> held ((workers s)[k := w']) i \<or> slot_ok requests rs' i"
    and fin: "w' = WDone \<Longrightarrow> ch_closed s \<and> ch' = []"
    and cnt: "wg' = running ((workers s)[k := w'])"
  shows "batch_inv requests
           (s\<lparr>factory := f', results := rs', requestCh := ch', wg := wg',
              workers := (workers s)[k := w']\<rparr>)"
proof -
  note D = batch_invD [OF inv]
  have nr: "main s \<noteq> MReturned"
    using D(11) running_pos [OF k act] by auto
  have wd: "ch_closed s \<and> ch' = []" if "WDone \<in> set ((workers s)[k := w'])"
  proof (cases "w' = WDone")
    case True
    then show ?thesis by (rule fin)
  next
    case False
    with that have "WDone \<in> set (workers s)" by (rule WDone_update)
    with D(8) sub(1) show ?thesis by simp
  qed
  show ?thesis
    unfolding batch_inv_def
    apply (intro conjI)
    subgoal using len by simp
    subgoal using D(2) by simp
    subgoal using worker_ok_update [OF D(3) ok] by simp
    subgoal using D(4) sub(1) by auto
    subgoal using D(5) sub(2) by simp
    subgoal using place by simp
    subgoal using D(7) by simp
    subgoal using wd by simp
    subgoal using D(9) by simp
    subgoal using cnt by simp
    subgoal using nr by simp
    done
qed

text \<open>A worker that moves on with the index it holds (resolve, call, record) keeps the
  invariant, whatever happens to the factory.\<close>

lemma batch_inv_worker_moves:
  assumes inv: "batch_inv requests s" and k: "k < length (workers s)"
    and ok: "worker_ok (length requests) w'"
    and h: "holding w' = holding (workers s ! k)"
    and nd: "w' \<noteq> WDone" "workers s ! k \<noteq> WDone"
  shows "batch_inv requests (s\<lparr>factory := f', workers := (workers s)[k := w']\<rparr>)"
proof -
  note D = batch_invD [OF inv]
  have place: "i \<in> set (requestCh s) \<or> held ((workers s)[k := w']) i
                 \<or> slot_ok requests (results s) i"
    if "i < sent (length requests) (main s)" for i
  proof (cases "holding (workers s ! k) = Some i")
    case True
    with h k show ?thesis by (simp add: held_update_same)
  next
    case False
    from D(6) that
    consider "i \<in> set (requestCh s)" | "held (workers s) i" | "slot_ok requests (results s) i"
      by blast
    then show ?thesis
    proof cases
      case 2
      then have "held ((workers s)[k := w']) i" using False by (rule held_update_other)
      then show ?thesis by simp
    qed simp_all
  qed
  have run: "wg s = running ((workers s)[k := w'])"
    using running_update [OF k, of w'] nd D(10) by simp
  from batch_inv_worker_update [where f' = f' and wg' = "wg s",
      OF inv k nd(2) ok D(1) subset_refl order_refl place _ run] nd(1)
  show ?thesis by simp
qed

lemma batch_inv_receive:
  assumes inv: "batch_inv requests s" and k: "k < length (workers s)"
    and w: "workers s ! k = WReceive" and ch: "requestCh s = idx # rest"
  shows "idx < length requests"
    and "batch_inv requests (s\<lparr>requestCh := rest, workers := (workers s)[k := WResolve idx]\<rparr>)"
proof -
  let ?n = "length requests"
  let ?ws' = "(workers s)[k := WResolve idx]"
  note D = batch_invD [OF inv]
  from D(4) ch have "idx < sent ?n (main s)" by simp
  with sent_le [OF D(2)] show idx: "idx < ?n" by simp
  have place: "i \<in> set rest \<or> held ?ws' i \<or> slot_ok requests (results s) i"
    if "i < sent ?n (main s)" for i
  proof -
    from D(6) that ch
    consider "i = idx" | "i \<in> set rest" | "held (workers s) i" | "slot_ok requests (results s) i"
      by auto
    then show ?thesis
    proof cases
      case 1
      with k show ?thesis by (simp add: held_update_same)
    next
      case 3
      then have "held ?ws' i" using w by (auto intro: held_update_other)
      then show ?thesis by simp
    qed simp_all
  qed
  have run: "wg s = running ?ws'"
    using running_update [OF k, of "WResolve idx"] w D(10) by simp
  have act: "workers s ! k \<noteq> WDone" using w by simp
  have sub: "set rest \<subseteq> set (requestCh s)" "length rest \<le> length (requestCh s)"
    using ch by auto
  from batch_inv_worker_update [where w' = "WResolve idx" and f' = "factory s",
      OF inv k act _ D(1) sub place _ run] idx
  show "batch_inv requests (s\<lparr>requestCh := rest, workers := ?ws'\<rparr>)" by simp
qed

lemma batch_inv_exit:
  assumes inv: "batch_inv requests s" and k: "k < length (workers s)"
    and w: "workers s ! k = WReceive" and ch: "requestCh s = []" and cl: "ch_closed s"
  shows "batch_inv requests (s\<lparr>wg := wg s - 1, workers := (workers s)[k := WDone]\<rparr>)"
proof -
  let ?n = "length requests"
  let ?ws' = "(workers s)[k := WDone]"
  note D = batch_invD [OF inv]
  have place: "i \<in> set (requestCh s) \<or> held ?ws' i \<or> slot_ok requests (results s) i"
    if "i < sent ?n (main s)" for i
  proof -
    from D(6) that
    consider "i \<in> set (requestCh s)" | "held (workers s) i" | "slot_ok requests (results s) i"
      by blast
    then show ?thesis
    proof cases
      case 2
      then have "held ?ws' i" using w by (auto intro: held_update_other)
      then show ?thesis by simp
    qed simp_all
  qed
  have run: "wg s - 1 = running ?ws'"
    using running_update [OF k, of WDone] w D(10) by simp
  have act: "workers s ! k \<noteq> WDone" using w by simp
  have fin: "ch_closed s \<and> requestCh s = []" using ch cl by simp
  have ok: "worker_ok ?n WDone" by simp
  from batch_inv_worker_update [where w' = WDone and f' = "factory s",
      OF inv k act ok D(1) subset_refl order_refl place fin run]
  show ?thesis by simp
qed

lemma batch_inv_store:
  assumes inv: "batch_inv requests s" and k: "k < length (workers s)"
    and w: "workers s ! k = WStore idx out"
  shows "idx < length (results s)"
    and "batch_inv requests
          (s\<lparr>results := (results s)[idx := \<lparr>Request = requests ! idx,
                                              ResPayment = fst out, ResError = snd out\<rparr>],
             workers := (workers s)[k := WReceive]\<rparr>)"
proof -
  let ?n = "length requests"
  let ?ws' = "(workers s)[k := WReceive]"
  let ?rs' = "(results s)[idx := \<lparr>Request = requests ! idx,
                                   ResPayment = fst out, ResError = snd out\<rparr>]"
  note D = batch_invD [OF inv]
  from D(3) w have "worker_ok ?n (WStore idx out)"
    using nth_mem [OF k] by auto
  then have idx: "idx < ?n" and wf: "wf_outcome out" by simp_all
  from idx D(1) show "idx < length (results s)" by simp
  have place: "i \<in> set (requestCh s) \<or> held ?ws' i \<or> slot_ok requests ?rs' i"
    if "i < sent ?n (main s)" for i
  proof (cases "i = idx")
    case True
    with idx D(1) wf show ?thesis by (simp add: slot_ok_def wf_outcome_def)
  next
    case False
    from D(6) that
    consider "i \<in> set (requestCh s)" | "held (workers s) i" | "slot_ok requests (results s) i"
      by blast
    then show ?thesis
    proof cases
      case 2
      then have "held ?ws' i" using w False by (auto intro: held_update_other)
      then show ?thesis by simp
    next
      case 3
      with False show ?thesis by (simp add: slot_ok_def)
    qed simp
  qed
  have run: "wg s = running ?ws'"
    using running_update [OF k, of WReceive] w D(10) by simp
  have act: "workers s ! k \<noteq> WDone" using w by simp
  have len: "length ?rs' = ?n" using D(1) by simp
  from batch_inv_worker_update [where w' = WReceive and f' = "factory s",
      OF inv k act _ len subset_refl order_refl place _ run]
  show "batch_inv requests (s\<lparr>results := ?rs', workers := ?ws'\<rparr>)" by simp
qed

lemma batch_inv_step_worker:
  assumes inv: "batch_inv requests s"
  shows "batch_inv requests (step_worker requests env k s)"
proof (cases "k < length (workers s)")
  case False
  with inv show ?thesis by (simp add: step_worker_def)
next
  case k: True
  let ?n = "length requests"
  from inv k have ok: "worker_ok ?n (workers s ! k)"
    using nth_mem [OF k] by (auto simp: batch_inv_def)
  show ?thesis
  proof (cases "workers s ! k")
    case WReceive
    show ?thesis
    proof (cases "requestCh s")
      case Nil
      with inv k WReceive batch_inv_exit [OF inv k WReceive Nil] show ?thesis
        by (simp add: step_worker_def)
    next
      case (Cons idx rest)
      with k WReceive batch_inv_receive [OF inv k WReceive Cons] show ?thesis
        by (simp add: step_worker_def)
    qed
  next
    case (WResolve idx)
    obtain r f' where g: "getOrCreateProvider env (factory s) (ReqProvider (requests ! idx)) = (r, f')"
      by (cases "getOrCreateProvider env (factory s) (ReqProvider (requests ! idx))")
    show ?thesis
    proof (cases r)
      case (Inl err)
      with ok WResolve
      have "batch_inv requests (s\<lparr>factory := f',
              workers := (workers s)[k := WStore idx (None, Some err)]\<rparr>)"
        by (intro batch_inv_worker_moves [OF inv k]) (simp_all add: wf_outcome_def)
      with k WResolve g Inl show ?thesis by (simp add: step_worker_def)
    next
      case (Inr provider)
      with ok WResolve
      have "batch_inv requests (s\<lparr>factory := f',
              workers := (workers s)[k := WCall idx provider]\<rparr>)"
        by (intro batch_inv_worker_moves [OF inv k]) simp_all
      with k WResolve g Inr show ?thesis by (simp add: step_worker_def)
    qed
  next
    case (WCall idx provider)
    let ?out = "snd (provider_ProcessPayment env provider
                  (ReqAmount (requests ! idx)) (ReqCurrency (requests ! idx)))"
    from ok WCall
    have "batch_inv requests (s\<lparr>factory := factory s,
            workers := (workers s)[k := WRecord idx ?out]\<rparr>)"
      by (intro batch_inv_worker_moves [OF inv k]) (simp_all add: provider_outcome_wf)
    with k WCall show ?thesis by (simp add: step_worker_def)
  next
    case (WRecord idx out)
    obtain payment e where out: "out = (payment, e)" by (cases out)
    show ?thesis
    proof (cases e)
      case None
      with ok WRecord out
      have "batch_inv requests
              (s\<lparr>factory := updateProviderState env (factory s)
                                (ReqProvider (requests ! idx)) True None,
                 workers := (workers s)[k := WStore idx (payment, None)]\<rparr>)"
        by (intro batch_inv_worker_moves [OF inv k]) simp_all
      with k WRecord out None show ?thesis by (simp add: step_worker_def)
    next
      case (Some paymentErr)
      with ok WRecord out
      have "batch_inv requests
              (s\<lparr>factory := updateProviderState env (factory s)
                                (ReqProvider (requests ! idx)) False (Some paymentErr),
                 workers := (workers s)[k := WStore idx (None, Some paymentErr)]\<rparr>)"
        by (intro batch_inv_worker_moves [OF inv k]) (simp_all add: wf_outcome_def)
      with k WRecord out Some show ?thesis by (simp add: step_worker_def)
    qed
  next
    case (WStore idx out)
    with k batch_inv_store [OF inv k WStore] show ?thesis
      by (simp add: step_worker_def)
  next
    case WDone
    with inv k show ?thesis by (simp add: step_worker_def)
  next
    case WPanic
    with inv k show ?thesis by (simp add: step_worker_def)
  qed
qed

lemma batch_inv_step: "batch_inv requests s \<Longrightarrow> batch_inv requests (step requests t s)"
proof -
  assume inv: "batch_inv requests s"
  obtain th env where t: "t = (th, env)" by (cases t)
  show ?thesis
  proof (cases th)
    case Main
    with t inv show ?thesis by (simp add: batch_inv_step_main)
  next
    case (Worker k)
    with t inv show ?thesis by (simp add: batch_inv_step_worker)
  qed
qed

lemma batch_inv_exec: "batch_inv requests s \<Longrightarrow> batch_inv requests (exec requests sched s)"
  by (induction sched arbitrary: s) (simp_all add: batch_inv_step)

subsection \<open>The dispatcher: what the caller gets back\<close>

lemma holding_WDone:
  assumes "\<forall>w \<in> set ws. w = WDone"
  shows "\<not> held ws i"
proof
  assume "held ws i"
  then obtain k where k: "k < length ws" "holding (ws ! k) = Some i"
    by (auto simp: held_def)
  from assms nth_mem [OF k(1)] have "ws ! k = WDone" by blast
  with k(2) show False by simp
qed

lemma batch_inv_returned:
  assumes inv: "batch_inv requests s" and ret: "main s = MReturned"
  shows "length (results s) = length requests"
    and "\<forall>i < length requests. slot_ok requests (results s) i"
proof -
  note D = batch_invD [OF inv]
  show "length (results s) = length requests" by (rule D(1))
  from D(11) ret have all_done: "\<forall>w \<in> set (workers s). w = WDone"
    by (simp add: running_zero)
  from D(9) ret have "length (workers s) = workerCount" by simp
  then have "workers s \<noteq> []" by (auto simp: workerCount_def)
  with all_done have "WDone \<in> set (workers s)"
    by (cases "workers s") auto
  with D(8) have empty: "requestCh s = []" by simp
  from D(6) ret empty holding_WDone [OF all_done]
  show "\<forall>i < length requests. slot_ok requests (results s) i"
    by simp
qed

lemma exec_append: "exec requests (a @ b) s = exec requests b (exec requests a s)"
  by (induction a arbitrary: s) simp_all

subsection \<open>The dispatcher: every run can be completed\<close>

lemma rank_update:
  "k < length ws \<Longrightarrow>
   sum_list (map worker_rank (ws[k := w])) + worker_rank (ws ! k)
     = sum_list (map worker_rank ws) + worker_rank w"
proof (induction ws arbitrary: k)
  case Nil
  then show ?case by simp
next
  case (Cons a ws)
  show ?case
  proof (cases k)
    case 0
    then show ?thesis by simp
  next
    case (Suc j)
    with Cons.prems have "j < length ws" by simp
    from Cons.IH [OF this] Suc show ?thesis by simp
  qed
qed

lemma running_witness: "0 < running ws \<Longrightarrow> \<exists>k < length ws. ws ! k \<noteq> WDone"
  using running_zero [of ws] by (auto simp: in_set_conv_nth)

text \<open>A worker that has not left its loop can take a step that reduces the work left,
  provided the channel is closed or not empty.\<close>

lemma worker_progress:
  assumes inv: "batch_inv requests s" and k: "k < length (workers s)"
    and act: "workers s ! k \<noteq> WDone"
    and en: "ch_closed s \<or> requestCh s \<noteq> []"
  shows "work_left requests (step_worker requests env k s) < work_left requests s"
proof -
  note D = batch_invD [OF inv]
  note R = rank_update [OF k]
  from D(3) have ok: "worker_ok (length requests) (workers s ! k)"
    using nth_mem [OF k] by auto
  show ?thesis
  proof (cases "workers s ! k")
    case WReceive
    show ?thesis
    proof (cases "requestCh s")
      case Nil
      with en k WReceive R [of WDone] show ?thesis
        by (simp add: step_worker_def work_left_def)
    next
      case (Cons idx rest)
      with batch_inv_receive(1) [OF inv k WReceive Cons] k WReceive R [of "WResolve idx"]
      show ?thesis
        by (simp add: step_worker_def work_left_def)
    qed
  next
    case (WResolve idx)
    obtain r f' where g: "getOrCreateProvider env (factory s) (ReqProvider (requests ! idx)) = (r, f')"
      by (cases "getOrCreateProvider env (factory s) (ReqProvider (requests ! idx))")
    show ?thesis
    proof (cases r)
      case (Inl err)
      with k WResolve g R [of "WStore idx (None, Some err)"] show ?thesis
        by (simp add: step_worker_def work_left_def)
    next
      case (Inr provider)
      with k WResolve g R [of "WCall idx provider"] show ?thesis
        by (simp add: step_worker_def work_left_def)
    qed
  next
    case (WCall idx provider)
    with k R [of "WRecord idx (snd (provider_ProcessPayment env provider
        (ReqAmount (requests ! idx)) (ReqCurrency (requests ! idx))))"]
    show ?thesis
      by (simp add: step_worker_def work_left_def)
  next
    case (WRecord idx out)
    obtain payment e where out: "out = (payment, e)" by (cases out)
    show ?thesis
    proof (cases e)
      case None
      with k WRecord out R [of "WStore idx (payment, None)"] show ?thesis
        by (simp add: step_worker_def work_left_def)
    next
      case (Some paymentErr)
      with k WRecord out R [of "WStore idx (None, Some paymentErr)"] show ?thesis
        by (simp add: step_worker_def work_left_def)
    qed
  next
    case (WStore idx out)
    with batch_inv_store(1) [OF inv k WStore] k R [of WReceive] show ?thesis
      by (simp add: step_worker_def work_left_def)
  next
    case WDone
    with act show ?thesis by simp
  next
    case WPanic
    with ok show ?thesis by simp
  qed
qed

lemma batch_progress:
  assumes inv: "batch_inv requests s" and nr: "main s \<noteq> MReturned"
  shows "\<exists>th. work_left requests (step requests (th, env) s) < work_left requests s"
proof -
  note D = batch_invD [OF inv]
  show ?thesis
  proof (cases "main s")
    case (MSpawn i)
    with D(2) have "work_left requests (step requests (Main, env) s) < work_left requests s"
      by (auto simp: step_main_def work_left_def workerCount_def)
    then show ?thesis ..
  next
    case (MSend i)
    with D(2) D(5) have "work_left requests (step requests (Main, env) s) < work_left requests s"
      by (auto simp: step_main_def work_left_def)
    then show ?thesis ..
  next
    case MClose
    then have "work_left requests (step requests (Main, env) s) < work_left requests s"
      by (simp add: step_main_def work_left_def)
    then show ?thesis ..
  next
    case MWait
    show ?thesis
    proof (cases "wg s = 0")
      case True
      with MWait have "work_left requests (step requests (Main, env) s) < work_left requests s"
        by (simp add: step_main_def work_left_def)
      then show ?thesis ..
    next
      case False
      with D(10) have "0 < running (workers s)" by simp
      then obtain k where k: "k < length (workers s)" "workers s ! k \<noteq> WDone"
        using running_witness by blast
      from D(7) MWait have "ch_closed s" by simp
      with worker_progress [OF inv k]
      have "work_left requests (step requests (Worker k, env) s) < work_left requests s"
        by simp
      then show ?thesis ..
    qed
  next
    case MReturned
    with nr show ?thesis by simp
  qed
qed

text \<open>The run can be completed whatever the world answers: \<open>envs i\<close> is the world that
  step \<open>i\<close> of the continuation finds.\<close>

lemma batch_completes:
  "batch_inv requests s \<Longrightarrow>
   \<exists>ths. main (exec requests (zip ths (map envs [0..<length ths])) s) = MReturned"
proof (induction "work_left requests s" arbitrary: s envs rule: less_induct)
  case less
  show ?case
  proof (cases "main s = MReturned")
    case True
    then have "main (exec requests (zip [] (map envs [0..<length ([] :: thread list)])) s)
                 = MReturned"
      by simp
    then show ?thesis ..
  next
    case False
    from batch_progress [OF less.prems False]
    obtain th where th: "work_left requests (step requests (th, envs 0) s) < work_left requests s" ..
    from less.hyps [OF th batch_inv_step [OF less.prems]]
    obtain ths where "main (exec requests (zip ths (map (\<lambda>i. envs (Suc i)) [0..<length ths]))
                             (step requests (th, envs 0) s)) = MReturned" ..
    then have "main (exec requests (zip (th # ths) (map envs [0..<length (th # ths)])) s)
                 = MReturned"
      by (simp add: map_upt_Suc del: upt_Suc)
    then show ?thesis ..
  qed
qed

text \<open>A worker's steps from resolving to recording are \<^verbatim>\<open>Factory.ProcessPayment\<close> cut at
  its two critical sections: run without interruption they amount to one call.\<close>

lemma worker_runs_ProcessPayment:
  assumes k: "k < length (workers s)" and w: "workers s ! k = WResolve idx"
  shows "\<exists>n \<le> 3. exec requests (replicate n (Worker k, env)) s =
           s\<lparr>factory := snd (ProcessPayment env (factory s) (ReqProvider (requests ! idx))
                                (ReqAmount (requests ! idx)) (ReqCurrency (requests ! idx))),
             workers := (workers s)[k := WStore idx
                 (fst (ProcessPayment env (factory s) (ReqProvider (requests ! idx))
                         (ReqAmount (requests ! idx)) (ReqCurrency (requests ! idx))))]\<rparr>"
proof -
  let ?name = "ReqProvider (requests ! idx)"
  let ?PP = "ProcessPayment env (factory s) ?name
               (ReqAmount (requests ! idx)) (ReqCurrency (requests ! idx))"
  obtain r f' where g: "getOrCreateProvider env (factory s) ?name = (r, f')"
    by (cases "getOrCreateProvider env (factory s) ?name")
  show ?thesis
  proof (cases r)
    case (Inl err)
    with g have "?PP = ((None, Some err), f')"
      by (simp add: ProcessPayment_def)
    with k w g Inl
    have "exec requests (replicate 1 (Worker k, env)) s =
            s\<lparr>factory := snd ?PP, workers := (workers s)[k := WStore idx (fst ?PP)]\<rparr>"
      by (simp add: step_worker_def)
    then show ?thesis by (intro exI [where x = 1]) simp
  next
    case (Inr provider)
    let ?out = "snd (provider_ProcessPayment env provider
                  (ReqAmount (requests ! idx)) (ReqCurrency (requests ! idx)))"
    from g Inr have pp: "?PP = (case snd ?out of
          Some e \<Rightarrow> ((None, Some e), updateProviderState env f' ?name False (Some e))
        | None \<Rightarrow> ((fst ?out, None), updateProviderState env f' ?name True None))"
      by (simp add: ProcessPayment_resolved)
    have "exec requests (replicate 3 (Worker k, env)) s =
            s\<lparr>factory := snd ?PP, workers := (workers s)[k := WStore idx (fst ?PP)]\<rparr>"
      using k w g Inr
      by (cases ?out; cases "snd ?out")
         (simp_all add: pp numeral_3_eq_3 step_worker_def)
    then show ?thesis by (intro exI [where x = 3]) simp
  qed
qed

text \<open>
  C1. Whatever the schedule \<open>sched\<close> of the caller and the five workers so far, and whatever
  the providers have answered and will answer (\<open>envs i\<close> is the world that step \<open>i\<close> from now
  on finds: any transport answer, any clock): the goroutines can be scheduled so that the
  caller of \<^verbatim>\<open>BatchProcessPayments\<close> returns. No state that a run reaches is a deadlock, and
  no sequence of answers, failures included, keeps the run from finishing. And when the
  caller returns, the list of results has the length of the list of requests, and for every
  index \<open>i\<close> the result at \<open>i\<close> carries request \<open>i\<close> and either a payment or an error, never
  both and never neither. So every slot is filled, whether other requests failed or not.
\<close>

theorem C1_batch_results_in_request_order:
  "(\<forall>envs. \<exists>ths.
      BatchProcessPayments (sched @ zip ths (map envs [0..<length ths])) f requests \<noteq> None)
   \<and> (BatchProcessPayments sched f requests = Some (rs, f') \<longrightarrow>
        length rs = length requests
        \<and> (\<forall>i < length requests.
              Request (rs ! i) = requests ! i
              \<and> ((ResPayment (rs ! i) = None) \<noteq> (ResError (rs ! i) = None))))"
proof (rule conjI)
  let ?s = "exec requests sched (batch_init f requests)"
  have inv: "batch_inv requests ?s"
    by (rule batch_inv_exec [OF batch_inv_init])
  show "\<forall>envs. \<exists>ths.
      BatchProcessPayments (sched @ zip ths (map envs [0..<length ths])) f requests \<noteq> None"
  proof
    fix envs :: "nat \<Rightarrow> env"
    from batch_completes [OF inv]
    obtain ths where "main (exec requests (zip ths (map envs [0..<length ths])) ?s) = MReturned" ..
    then have "BatchProcessPayments (sched @ zip ths (map envs [0..<length ths])) f requests
                 \<noteq> None"
      by (simp add: BatchProcessPayments_def exec_append Let_def)
    then show "\<exists>ths. BatchProcessPayments (sched @ zip ths (map envs [0..<length ths])) f requests
                 \<noteq> None" ..
  qed
next
  let ?s = "exec requests sched (batch_init f requests)"
  show "BatchProcessPayments sched f requests = Some (rs, f') \<longrightarrow>
        length rs = length requests
        \<and> (\<forall>i < length requests.
              Request (rs ! i) = requests ! i
              \<and> ((ResPayment (rs ! i) = None) \<noteq> (ResError (rs ! i) = None)))"
  proof (rule impI)
    assume "BatchProcessPayments sched f requests = Some (rs, f')"
    then have ret: "main ?s = MReturned" and rs: "rs = results ?s"
      by (auto simp: BatchProcessPayments_def Let_def split: if_splits)
    have inv: "batch_inv requests ?s"
      by (rule batch_inv_exec [OF batch_inv_init])
    from batch_inv_returned [OF inv ret] rs
    show "length rs = length requests
          \<and> (\<forall>i < length requests.
                Request (rs ! i) = requests ! i
                \<and> ((ResPayment (rs ! i) = None) \<noteq> (ResError (rs ! i) = None)))"
      by (simp add: slot_ok_def wf_outcome_def)
  qed
qed

theorem C1_batch_results_witness:
  "(\<exists>rs f'. BatchProcessPayments test_schedule test_factory test_requests = Some (rs, f')
       \<and> length rs = length test_requests
       \<and> (\<forall>i < length test_requests.
             Request (rs ! i) = test_requests ! i
             \<and> ((ResPayment (rs ! i) = None) \<noteq> (ResError (rs ! i) = None))))
   \<and> map_option
        (\<lambda>(rs, f'). map (\<lambda>r. (map_option ID (ResPayment r), map_option Code (ResError r))) rs)
        (BatchProcessPayments test_schedule test_factory test_requests)
      = Some [(Some ''TXN-TEST-100'', None), (None, Some ErrCardDeclined)]
   \<and> (\<exists>ths. BatchProcessPayments (zip ths (map (\<lambda>i. env_down) [0..<length ths]))
               test_factory test_requests \<noteq> None)
   \<and> map_option
        (\<lambda>(rs, f'). map (\<lambda>r. (map_option ID (ResPayment r), map_option Code (ResError r))) rs)
        (BatchProcessPayments test_schedule_down test_factory test_requests)
      = Some [(None, Some ErrInternalError), (None, Some ErrProviderUnavailable)]"
proof -
  have ret: "main (exec test_requests test_schedule (batch_init test_factory test_requests))
               = MReturned"
    by code_simp
  have vals: "map (\<lambda>r. (map_option ID (ResPayment r), map_option Code (ResError r)))
                (results (exec test_requests test_schedule (batch_init test_factory test_requests)))
      = [(Some ''TXN-TEST-100'', None), (None, Some ErrCardDeclined)]"
    by code_simp
  let ?s = "exec test_requests test_schedule (batch_init test_factory test_requests)"
  let ?B = "BatchProcessPayments test_schedule test_factory test_requests"
  have some: "?B = Some (results ?s, factory ?s)"
    by (simp only: BatchProcessPayments_def Let_def ret simp_thms if_True)
  note order = conjunct2 [OF C1_batch_results_in_request_order [of test_schedule test_factory test_requests
      "results ?s" "factory ?s"], THEN mp, OF some]
  from some order
  have "?B = Some (results ?s, factory ?s)
       \<and> length (results ?s) = length test_requests
       \<and> (\<forall>i < length test_requests.
             Request (results ?s ! i) = test_requests ! i
             \<and> ((ResPayment (results ?s ! i) = None) \<noteq> (ResError (results ?s ! i) = None)))"
    by (rule conjI)
  then have a: "\<exists>rs f'. ?B = Some (rs, f')
       \<and> length rs = length test_requests
       \<and> (\<forall>i < length test_requests.
             Request (rs ! i) = test_requests ! i
             \<and> ((ResPayment (rs ! i) = None) \<noteq> (ResError (rs ! i) = None)))"
    by - (rule exI, rule exI, assumption)
  have b: "map_option
        (\<lambda>(rs, f'). map (\<lambda>r. (map_option ID (ResPayment r), map_option Code (ResError r))) rs)
        ?B
      = Some [(Some ''TXN-TEST-100'', None), (None, Some ErrCardDeclined)]"
    by (simp only: some option.map prod.case vals)
  have c: "\<exists>ths. BatchProcessPayments (zip ths (map (\<lambda>i. env_down) [0..<length ths]))
               test_factory test_requests \<noteq> None"
    using conjunct1 [OF C1_batch_results_in_request_order [of "[]" test_factory test_requests],
            THEN spec, of "\<lambda>i. env_down"]
    by (simp only: append_Nil)
  let ?d = "exec test_requests test_schedule_down (batch_init test_factory test_requests)"
  have ret_down: "main ?d = MReturned"
    by code_simp
  have vals_down: "map (\<lambda>r. (map_option ID (ResPayment r), map_option Code (ResError r)))
                     (results ?d)
      = [(None, Some ErrInternalError), (None, Some ErrProviderUnavailable)]"
    by code_simp
  have some_down: "BatchProcessPayments test_schedule_down test_factory test_requests
                     = Some (results ?d, factory ?d)"
    by (simp only: BatchProcessPayments_def Let_def ret_down simp_thms if_True)
  have d: "map_option
        (\<lambda>(rs, f'). map (\<lambda>r. (map_option ID (ResPayment r), map_option Code (ResError r))) rs)
        (BatchProcessPayments test_schedule_down test_factory test_requests)
      = Some [(None, Some ErrInternalError), (None, Some ErrProviderUnavailable)]"
    by (simp only: some_down option.map prod.case vals_down)
  show ?thesis
    by (rule conjI [OF a conjI [OF b conjI [OF c d]]])
qed

subsection \<open>Entries of the health-state map\<close>

lemma registry_ok_NewFactory: "registry_ok (NewFactory cfg)"
  by (simp add: registry_ok_def NewFactory_def)

lemma getOrCreateProvider_registry:
  assumes "registry_ok f"
  shows "registry_ok (snd (getOrCreateProvider env f name))"
    and "dom (providers f) \<subseteq> dom (providers (snd (getOrCreateProvider env f name)))"
  using assms
  by (auto simp: registry_ok_def getOrCreateProvider_def Let_def split: option.splits)

lemma CreateProvider_registry:
  assumes "registry_ok f"
  shows "registry_ok (snd (CreateProvider env f name))"
    and "dom (providers f) \<subseteq> dom (providers (snd (CreateProvider env f name)))"
  using assms
  by (auto simp: registry_ok_def CreateProvider_def Let_def split: option.splits)

lemma updateProviderState_registry:
  assumes "registry_ok f" and "name \<in> dom (providers f)"
  shows "registry_ok (updateProviderState env f name success err)"
  using assms by (auto simp: registry_ok_def updateProviderState_def Let_def)

lemma UpdateProviderState_registry:
  assumes "registry_ok f"
  shows "registry_ok (UpdateProviderState env f name err)"
    and "providers (UpdateProviderState env f name err) = providers f"
  using assms
  by (auto simp: registry_ok_def UpdateProviderState_def Let_def split: option.splits)

lemma ProcessPayment_registry:
  assumes ok: "registry_ok f"
  shows "registry_ok (snd (ProcessPayment env f name amount currency))"
    and "dom (providers f) \<subseteq> dom (providers (snd (ProcessPayment env f name amount currency)))"
proof -
  obtain r g where g: "getOrCreateProvider env f name = (r, g)"
    by (cases "getOrCreateProvider env f name")
  from getOrCreateProvider_registry [OF ok, of env name] g
  have okg: "registry_ok g" and sub: "dom (providers f) \<subseteq> dom (providers g)"
    by simp_all
  show "registry_ok (snd (ProcessPayment env f name amount currency))"
  proof (cases r)
    case (Inl e)
    with g okg show ?thesis by (simp add: ProcessPayment_def)
  next
    case (Inr p)
    with g getOrCreateProvider_Inr [of env f name p g] have "name \<in> dom (providers g)"
      by auto
    with g Inr okg show ?thesis
      by (simp add: ProcessPayment_resolved updateProviderState_registry split: option.splits)
  qed
  show "dom (providers f) \<subseteq> dom (providers (snd (ProcessPayment env f name amount currency)))"
  proof (cases r)
    case (Inl e)
    with g sub show ?thesis by (simp add: ProcessPayment_def)
  next
    case (Inr p)
    with g sub show ?thesis
      by (simp add: ProcessPayment_resolved updateProviderState_frame split: option.splits)
  qed
qed

lemma GetProviderMetadata_snd:
  "snd (GetProviderMetadata env f name) = snd (getOrCreateProvider env f name)"
  by (simp add: GetProviderMetadata_def split: prod.splits sum.splits)

lemma resolved_for_mono:
  "resolved_for requests f w \<Longrightarrow> dom (providers f) \<subseteq> dom (providers f')
   \<Longrightarrow> resolved_for requests f' w"
  by (cases w) auto

lemma resolved_for_update:
  assumes "\<forall>w \<in> set ws. resolved_for requests f w"
    and "dom (providers f) \<subseteq> dom (providers f')"
    and "resolved_for requests f' w'"
  shows "\<forall>w \<in> set (ws[k := w']). resolved_for requests f' w"
  using assms set_update_subset_insert [of ws k w'] resolved_for_mono [of requests f _ f']
  by blast

text \<open>Along a batch the registry stays well formed and its set of cached names only
  grows.\<close>

lemma batch_registry_step_worker:
  assumes R: "batch_registry_ok requests s"
  shows "batch_registry_ok requests (step_worker requests env k s)
         \<and> dom (providers (factory s)) \<subseteq> dom (providers (factory (step_worker requests env k s)))"
proof (cases "k < length (workers s)")
  case False
  with R show ?thesis by (simp add: step_worker_def)
next
  case k: True
  from R have ok: "registry_ok (factory s)"
    and ws: "\<forall>w \<in> set (workers s). resolved_for requests (factory s) w"
    by (simp_all add: batch_registry_ok_def)
  from ws nth_mem [OF k] have wk: "resolved_for requests (factory s) (workers s ! k)"
    by blast
  note U = resolved_for_update [OF ws]
  show ?thesis
  proof (cases "workers s ! k")
    case WReceive
    note U0 = U [OF subset_refl]
    from WReceive k ok U0 [where w' = WDone and k = k]
      U0 [where w' = "WResolve i" and k = k for i] U0 [where w' = WPanic and k = k] ws
    show ?thesis
      by (simp add: step_worker_def batch_registry_ok_def split: list.splits)
  next
    case (WResolve idx)
    let ?name = "ReqProvider (requests ! idx)"
    obtain r f' where g: "getOrCreateProvider env (factory s) ?name = (r, f')"
      by (cases "getOrCreateProvider env (factory s) ?name")
    from getOrCreateProvider_registry [OF ok, of env ?name] g
    have okf: "registry_ok f'" and sub: "dom (providers (factory s)) \<subseteq> dom (providers f')"
      by simp_all
    show ?thesis
    proof (cases r)
      case (Inl err)
      with k WResolve g okf sub
        U [where k = k and w' = "WStore idx (None, Some err)", OF sub] show ?thesis
        by (simp add: step_worker_def batch_registry_ok_def)
    next
      case (Inr p)
      with g getOrCreateProvider_Inr [of env "factory s" ?name p f']
      have "resolved_for requests f' (WCall idx p)" by auto
      with k WResolve g Inr okf sub
        U [where k = k and w' = "WCall idx p", OF sub] show ?thesis
        by (simp add: step_worker_def batch_registry_ok_def)
    qed
  next
    case (WCall idx p)
    let ?out = "snd (provider_ProcessPayment env p
                  (ReqAmount (requests ! idx)) (ReqCurrency (requests ! idx)))"
    from wk WCall have "resolved_for requests (factory s) (WRecord idx ?out)" by simp
    with k WCall ok U [where k = k and w' = "WRecord idx ?out", OF subset_refl] show ?thesis
      by (simp add: step_worker_def batch_registry_ok_def)
  next
    case (WRecord idx out)
    let ?name = "ReqProvider (requests ! idx)"
    from wk WRecord have nm: "?name \<in> dom (providers (factory s))" by simp
    obtain payment e where out: "out = (payment, e)" by (cases out)
    have upd: "registry_ok (updateProviderState env (factory s) ?name b x)" for b x
      using ok nm by (rule updateProviderState_registry)
    have sub: "dom (providers (factory s))
                 \<subseteq> dom (providers (updateProviderState env (factory s) ?name b x))" for b x
      by (simp add: updateProviderState_frame)
    show ?thesis
    proof (cases e)
      case None
      with k WRecord out upd sub
        U [where k = k and w' = "WStore idx (payment, None)", OF sub [of True None]]
      show ?thesis
        by (simp add: step_worker_def batch_registry_ok_def updateProviderState_frame)
    next
      case (Some paymentErr)
      with k WRecord out upd sub
        U [where k = k and w' = "WStore idx (None, Some paymentErr)",
           OF sub [of False "Some paymentErr"]]
      show ?thesis
        by (simp add: step_worker_def batch_registry_ok_def updateProviderState_frame)
    qed
  next
    case (WStore idx out)
    note U0 = U [OF subset_refl]
    from WStore k ok U0 [where w' = WReceive and k = k] U0 [where w' = WPanic and k = k]
    show ?thesis
      by (simp add: step_worker_def batch_registry_ok_def)
  next
    case WDone
    with R k show ?thesis by (simp add: step_worker_def)
  next
    case WPanic
    with R k show ?thesis by (simp add: step_worker_def)
  qed
qed

lemma batch_registry_step:
  assumes R: "batch_registry_ok requests s"
  shows "batch_registry_ok requests (step requests t s)
         \<and> dom (providers (factory s)) \<subseteq> dom (providers (factory (step requests t s)))"
proof -
  obtain th env where t: "t = (th, env)" by (cases t)
  show ?thesis
  proof (cases th)
    case Main
    with t R show ?thesis
      by (auto simp: step_main_def batch_registry_ok_def split: main_pc.splits)
  next
    case (Worker k)
    with t batch_registry_step_worker [OF R] show ?thesis by simp
  qed
qed

lemma batch_registry_exec:
  "batch_registry_ok requests s \<Longrightarrow>
   batch_registry_ok requests (exec requests sched s)
   \<and> dom (providers (factory s)) \<subseteq> dom (providers (factory (exec requests sched s)))"
proof (induction sched arbitrary: s)
  case Nil
  then show ?case by simp
next
  case (Cons t ts)
  from batch_registry_step [OF Cons.prems, of t]
  have 1: "batch_registry_ok requests (step requests t s)"
    and 2: "dom (providers (factory s)) \<subseteq> dom (providers (factory (step requests t s)))"
    by simp_all
  from Cons.IH [OF 1] 2 show ?case by auto
qed

lemma perform_registry:
  assumes ok: "registry_ok f"
  shows "registry_ok (perform env c f) \<and> dom (providers f) \<subseteq> dom (providers (perform env c f))"
proof (cases c)
  case (CallProcessPayment name amount currency)
  with ProcessPayment_registry [OF ok] show ?thesis by simp
next
  case (CallBatchProcessPayments sched requests)
  have "batch_registry_ok requests (batch_init f requests)"
    using ok by (simp add: batch_registry_ok_def batch_init_def)
  from batch_registry_exec [OF this, of sched] CallBatchProcessPayments show ?thesis
    by (simp add: batch_registry_ok_def batch_init_def)
next
  case (CallCreateProvider name)
  with CreateProvider_registry [OF ok] show ?thesis by simp
next
  case (CallUpdateProviderState name err)
  with UpdateProviderState_registry [OF ok] show ?thesis by simp
next
  case (CallGetProviderMetadata name)
  with getOrCreateProvider_registry [OF ok] show ?thesis
    by (simp add: GetProviderMetadata_snd)
qed

lemma lifetime_registry:
  "registry_ok f \<Longrightarrow>
   registry_ok (lifetime f calls) \<and> dom (providers f) \<subseteq> dom (providers (lifetime f calls))"
proof (induction calls arbitrary: f)
  case Nil
  then show ?case by simp
next
  case (Cons a calls)
  obtain env c where a: "a = (env, c)" by (cases a)
  from perform_registry [OF Cons.prems, of env c]
  have 1: "registry_ok (perform env c f)"
    and 2: "dom (providers f) \<subseteq> dom (providers (perform env c f))"
    by simp_all
  from Cons.IH [OF 1] 2 a show ?case by auto
qed

lemma lifetime_append: "lifetime f (a @ b) = lifetime (lifetime f a) b"
  by (induction a arbitrary: f) auto

text \<open>
  C9, as stated: the health-state map has an entry for every name ever passed to the
  registry, including names whose resolution failed. A call of \<^verbatim>\<open>ProcessPayment\<close> with a
  name that is not configured returns \<^verbatim>\<open>PROVIDER_NOT_FOUND\<close> before any state is created.
\<close>

theorem C9_counterexample:
  "map_option Code (snd (fst (ProcessPayment env_up test_factory
       ''NonExistentProvider'' (Finite 100) ''USD''))) = Some ErrProviderNotFound
   \<and> providerStates (snd (ProcessPayment env_up test_factory
       ''NonExistentProvider'' (Finite 100) ''USD'')) ''NonExistentProvider'' = None"
  by (simp add: ProcessPayment_def getOrCreateProvider_def test_factory_def NewFactory_def
        zero_PaymentError_def)

text \<open>
  C9, amended. Let \<open>f\<close> be a factory at any moment of its life: created by \<^verbatim>\<open>NewFactory\<close>
  and then used through any sequence of calls. Then
  \<^item> the health-state map of \<open>f\<close> has an entry exactly for the names whose adapter is cached,
    that is, for the names resolved so far (a map has one entry for a key);
  \<^item> whatever calls follow, the entries of \<open>f\<close> stay;
  \<^item> after \<^verbatim>\<open>ProcessPayment\<close> for a name, the name has an entry if and only if its resolution
    succeeded, and after \<^verbatim>\<open>CreateProvider\<close> if and only if the call returned an adapter: a
    name whose resolution failed gets no entry.
\<close>

theorem C9_state_entries:
  "dom (providerStates (lifetime (NewFactory cfg) calls))
     = dom (providers (lifetime (NewFactory cfg) calls))
   \<and> dom (providerStates (lifetime (NewFactory cfg) calls))
       \<subseteq> dom (providerStates (lifetime (NewFactory cfg) (calls @ later)))
   \<and> (name \<in> dom (providerStates (snd (ProcessPayment env
           (lifetime (NewFactory cfg) calls) name amount currency)))
       \<longleftrightarrow> (\<exists>p. fst (getOrCreateProvider env (lifetime (NewFactory cfg) calls) name) = Inr p))
   \<and> (name \<in> dom (providerStates (snd (CreateProvider env
           (lifetime (NewFactory cfg) calls) name)))
       \<longleftrightarrow> (\<exists>p. fst (CreateProvider env (lifetime (NewFactory cfg) calls) name) = Inr p))"
proof (intro conjI)
  let ?f = "lifetime (NewFactory cfg) calls"
  note L = lifetime_registry [OF registry_ok_NewFactory, of cfg]
  from L [of calls] have ok: "registry_ok ?f" by simp
  then show eq: "dom (providerStates ?f) = dom (providers ?f)"
    by (simp add: registry_ok_def)
  from lifetime_registry [OF ok, of later] eq
  show "dom (providerStates ?f) \<subseteq> dom (providerStates (lifetime (NewFactory cfg) (calls @ later)))"
    by (simp add: registry_ok_def lifetime_append)
  show "name \<in> dom (providerStates (snd (ProcessPayment env ?f name amount currency)))
       \<longleftrightarrow> (\<exists>p. fst (getOrCreateProvider env ?f name) = Inr p)"
  proof -
    obtain r g where g: "getOrCreateProvider env ?f name = (r, g)"
      by (cases "getOrCreateProvider env ?f name")
    show ?thesis
    proof (cases r)
      case (Inl e)
      with g have "providers ?f name = None"
        by (auto simp: getOrCreateProvider_def split: option.splits)
      with g Inl eq show ?thesis
        by (auto simp: ProcessPayment_unresolved)
    next
      case (Inr p)
      with g show ?thesis
        by (auto simp: ProcessPayment_resolved updateProviderState_state split: option.splits)
    qed
  qed
  show "name \<in> dom (providerStates (snd (CreateProvider env ?f name)))
       \<longleftrightarrow> (\<exists>p. fst (CreateProvider env ?f name) = Inr p)"
  proof -
    from CreateProvider_registry(1) [OF ok, of env name]
    have eq': "dom (providerStates (snd (CreateProvider env ?f name)))
                = dom (providers (snd (CreateProvider env ?f name)))"
      by (simp add: registry_ok_def)
    obtain r g where g: "CreateProvider env ?f name = (r, g)"
      by (cases "CreateProvider env ?f name")
    show ?thesis
    proof (cases r)
      case (Inl e)
      with g have "providers ?f name = None \<and> g = ?f"
        by (auto simp: CreateProvider_def Let_def split: option.splits if_splits)
      with g Inl eq show ?thesis by auto
    next
      case (Inr p)
      with g CreateProvider_Inr [of env ?f name p g] eq' show ?thesis by auto
    qed
  qed
qed

theorem C9_state_entries_witness:
  "''ProviderA'' \<in> dom (providerStates (snd (ProcessPayment env_up
        (lifetime (NewFactory [''ProviderA'' \<mapsto> test_cfgA]) [])
        ''ProviderA'' (Finite 100) ''USD'')))
   \<and> ''Nope'' \<notin> dom (providerStates (snd (ProcessPayment env_up
        (lifetime (NewFactory [''ProviderA'' \<mapsto> test_cfgA]) [])
        ''Nope'' (Finite 100) ''USD'')))
   \<and> ''Nope'' \<notin> dom (providerStates (snd (CreateProvider env_up
        (lifetime (NewFactory [''ProviderA'' \<mapsto> test_cfgA]) []) ''Nope'')))
   \<and> dom (providerStates (lifetime (NewFactory [''ProviderA'' \<mapsto> test_cfgA])
            [(env_up, CallProcessPayment ''ProviderA'' (Finite 100) ''USD'')]))
      \<subseteq> dom (providerStates (lifetime (NewFactory [''ProviderA'' \<mapsto> test_cfgA])
            ([(env_up, CallProcessPayment ''ProviderA'' (Finite 100) ''USD'')]
             @ [(env_down, CallBatchProcessPayments test_schedule test_requests)])))"
proof -
  let ?m = "[''ProviderA'' \<mapsto> test_cfgA]"
  let ?f = "lifetime (NewFactory ?m) []"
  have g1: "fst (getOrCreateProvider env_up ?f ''ProviderA'') = Inr (ProviderA test_cfgA)"
    by (simp add: getOrCreateProvider_def NewFactory_def NewProviderA_def Let_def)
  have g2: "\<not> (\<exists>p. fst (getOrCreateProvider env_up ?f ''Nope'') = Inr p)"
    by (simp add: getOrCreateProvider_def NewFactory_def)
  have g3: "\<not> (\<exists>p. fst (CreateProvider env_up ?f ''Nope'') = Inr p)"
    by (simp add: CreateProvider_def NewFactory_def)
  from C9_state_entries [of ?m "[]" _ "''ProviderA''" env_up "Finite 100" "''USD''"] g1
  have 1: "''ProviderA'' \<in> dom (providerStates (snd (ProcessPayment env_up ?f
             ''ProviderA'' (Finite 100) ''USD'')))"
    by blast
  from C9_state_entries [of ?m "[]" _ "''Nope''" env_up "Finite 100" "''USD''"] g2 g3
  have 2: "''Nope'' \<notin> dom (providerStates (snd (ProcessPayment env_up ?f
             ''Nope'' (Finite 100) ''USD'')))"
    and 3: "''Nope'' \<notin> dom (providerStates (snd (CreateProvider env_up ?f ''Nope'')))"
    by blast+
  from C9_state_entries [of ?m "[(env_up, CallProcessPayment ''ProviderA'' (Finite 100) ''USD'')]"
      "[(env_down, CallBatchProcessPayments test_schedule test_requests)]"]
  have 4: "dom (providerStates (lifetime (NewFactory ?m)
            [(env_up, CallProcessPayment ''ProviderA'' (Finite 100) ''USD'')]))
      \<subseteq> dom (providerStates (lifetime (NewFactory ?m)
            ([(env_up, CallProcessPayment ''ProviderA'' (Finite 100) ''USD'')]
             @ [(env_down, CallBatchProcessPayments test_schedule test_requests)])))"
    by (rule conjunct2 [THEN conjunct1])
  from 1 2 3 4 show ?thesis by (intro conjI)
qed

end
